theory Spec2Isabelle
  imports Main "HOL-Library.Sublist"
begin

section \<open>Text formatting, dates and paths\<close>

text \<open>
  Python strings are modelled as \<^typ>\<open>string\<close>; the formatting used by the
  repository only ever produces ASCII digits, the minus sign and fixed literals.
\<close>

definition digit_char :: "nat \<Rightarrow> char" where
  "digit_char n = ''0123456789'' ! (n mod 10)"

fun digits_of :: "nat \<Rightarrow> string" where
  "digits_of n =
     (if n < 10 then [digit_char n] else digits_of (n div 10) @ [digit_char (n mod 10)])"

declare digits_of.simps [simp del]

definition str_int :: "int \<Rightarrow> string" where
  \<comment> \<open>\<^verbatim>\<open>f"{i}"\<close> for an int: decimal, with a sign only when negative\<close>
  "str_int i = (if i < 0 then CHR ''-'' # digits_of (nat (- i)) else digits_of (nat i))"

definition format_0d :: "nat \<Rightarrow> int \<Rightarrow> string" where
  \<comment> \<open>\<^verbatim>\<open>f"{i:0Wd}"\<close>: sign first, then zeros up to a total width of \<open>W\<close>\<close>
  "format_0d w i =
     (let sign = (if i < 0 then ''-'' else '''');
          ds = digits_of (nat \<bar>i\<bar>)
      in sign @ replicate (w - length sign - length ds) CHR ''0'' @ ds)"

record datetime =
  year :: int
  month :: int
  day :: int
  hour :: int
  minute :: int
  second :: int
  microsecond :: int

definition is_leap :: "int \<Rightarrow> bool" where
  "is_leap y = (y mod 4 = 0 \<and> (y mod 100 \<noteq> 0 \<or> y mod 400 = 0))"

definition days_in_month :: "int \<Rightarrow> int \<Rightarrow> int" where
  "days_in_month y m =
     (if m = 2 then (if is_leap y then 29 else 28)
      else if m = 4 \<or> m = 6 \<or> m = 9 \<or> m = 11 then 30 else 31)"


definition strftime_Ymd :: "datetime \<Rightarrow> string" where
  \<comment> \<open>\<^verbatim>\<open>strftime('%Y%m%d')\<close> as CPython gives it on Linux, where the C library formats
      the year: in decimal without padding; month and day zero-padded to two digits\<close>
  "strftime_Ymd d = str_int (year d) @ format_0d 2 (month d) @ format_0d 2 (day d)"

fun tuple_le :: "int list \<Rightarrow> int list \<Rightarrow> bool" where
  "tuple_le [] ys = True"
| "tuple_le (x # xs) [] = False"
| "tuple_le (x # xs) (y # ys) = (x < y \<or> (x = y \<and> tuple_le xs ys))"

definition datetime_le :: "datetime \<Rightarrow> datetime \<Rightarrow> bool" where
  \<comment> \<open>\<^verbatim>\<open>a <= b\<close> on naive datetimes: the seven fields compared as tuples\<close>
  "datetime_le a b =
     tuple_le [year a, month a, day a, hour a, minute a, second a, microsecond a]
              [year b, month b, day b, hour b, minute b, second b, microsecond b]"

datatype error =
    ValueError string
  | FileNotFoundError string
  | FileExistsError
  | NotADirectoryError
  | IsADirectoryError
  | OverflowError
  | TypeError
  | IndexError
  | AttributeError
  | TransactionException
  | EngineError string

definition add_one_day :: "datetime \<Rightarrow> error + datetime" where
  \<comment> \<open>\<^verbatim>\<open>d + timedelta(days=1)\<close>; past 9999-12-31 Python raises OverflowError\<close>
  "add_one_day d =
     (if day d < days_in_month (year d) (month d) then Inr (d\<lparr>day := day d + 1\<rparr>)
      else if month d < 12 then Inr (d\<lparr>month := month d + 1, day := 1\<rparr>)
      else if year d < 9999 then Inr (d\<lparr>year := year d + 1, month := 1, day := 1\<rparr>)
      else Inl OverflowError)"

text \<open>
  A \<^verbatim>\<open>pathlib.Path\<close> is its tuple of parts. The operator \<^verbatim>\<open>/\<close> is only applied to
  single components without a separator, so it appends one part.
\<close>

type_synonym path = "string list"

definition path_div :: "path \<Rightarrow> string \<Rightarrow> path" where
  "path_div p s = p @ [s]"

fun join_parts :: "string list \<Rightarrow> string" where
  "join_parts [] = ''''"
| "join_parts [s] = s"
| "join_parts (s # t # ts) = s @ ''/'' @ join_parts (t # ts)"

definition path_str :: "path \<Rightarrow> string" where
  \<comment> \<open>\<^verbatim>\<open>str(p)\<close>; an absolute path has the root \<^verbatim>\<open>/\<close> as its first part\<close>
  "path_str p =
     (case p of [] \<Rightarrow> ''.''
      | s # ts \<Rightarrow> if s = ''/'' then ''/'' @ join_parts ts else join_parts (s # ts))"

section \<open>Configuration constants and path helpers (config/database\_config.py)\<close>

definition DB_PATH :: string where
  "DB_PATH = ''dwh.duckdb''"

definition RAW_DATA_PATH :: path where
  "RAW_DATA_PATH = [''data'', ''raw'', ''case_history'']"

definition get_raw_data_path :: "datetime \<Rightarrow> path" where
  "get_raw_data_path date =
     path_div (path_div (path_div RAW_DATA_PATH (str_int (year date)))
       (format_0d 2 (month date))) (format_0d 2 (day date))"

definition get_raw_file_path :: "datetime \<Rightarrow> path" where
  "get_raw_file_path date =
     (let folder = get_raw_data_path date;
          filename = ''casos_rrhh_'' @ strftime_Ymd date @ ''.parquet''
      in path_div folder filename)"

section \<open>The file system\<close>

text \<open>
  Directories are a set of paths, files a map from paths to their contents. A table
  (a DataFrame, a Parquet file, a query result) is its list of rows.
\<close>

datatype pyval = PStr string | PInt int | PNone

type_synonym relation = "pyval list list"

record filesystem =
  dirs :: "path set"
  files :: "path \<rightharpoonup> relation"

definition path_exists :: "path \<Rightarrow> filesystem \<Rightarrow> bool" where
  \<comment> \<open>\<^verbatim>\<open>p.exists()\<close>; the empty path is the working directory\<close>
  "path_exists p fs = (p = [] \<or> p \<in> dirs fs \<or> files fs p \<noteq> None)"

definition mkdir_parents :: "path \<Rightarrow> filesystem \<Rightarrow> (error + unit) \<times> filesystem" where
  \<comment> \<open>\<^verbatim>\<open>p.mkdir(parents=True, exist_ok=True)\<close>\<close>
  "mkdir_parents p fs =
     (if files fs p \<noteq> None then (Inl FileExistsError, fs)
      else if \<exists>q \<in> set (prefixes p). files fs q \<noteq> None then (Inl NotADirectoryError, fs)
      else (Inr (), fs\<lparr>dirs := dirs fs \<union> set (prefixes p)\<rparr>))"

section \<open>File utilities (config/files\_utils.py)\<close>

definition ensure_path_exists :: "path \<Rightarrow> filesystem \<Rightarrow> (error + path) \<times> filesystem" where
  "ensure_path_exists p fs =
     (case mkdir_parents p fs of
        (Inl e, fs') \<Rightarrow> (Inl e, fs')
      | (Inr _, fs') \<Rightarrow> (Inr p, fs'))"

function list_raw_files_loop ::
  "filesystem \<Rightarrow> datetime \<Rightarrow> datetime \<Rightarrow> path list \<Rightarrow> error + path list" where
  "list_raw_files_loop fs current end_date fls =
     (if datetime_le current end_date then
        (let file_path = get_raw_file_path current;
             fls' = (if path_exists file_path fs then fls @ [file_path] else fls)
         in case add_one_day current of
              Inl e \<Rightarrow> Inl e
            | Inr current' \<Rightarrow> list_raw_files_loop fs current' end_date fls')
      else Inr fls)"
  by pat_completeness auto
termination
proof (relation "measures [\<lambda>(fs, c, e, fls). nat (year e + 1 - year c),
                          \<lambda>(fs, c, e, fls). nat (12 - month c),
                          \<lambda>(fs, c, e, fls). nat (31 - day c)]", goal_cases)
  case 1
  show ?case by simp
next
  case (2 fs current end_date fls x xa current')
  have dim: "days_in_month (year current) (month current) \<le> 31"
    by (simp add: days_in_month_def)
  from 2 have yle: "year current \<le> year end_date"
    by (auto simp: datetime_le_def)
  from 2 have step: "add_one_day current = Inr current'"
    by simp
  from step dim yle show ?case
    by (auto simp: add_one_day_def split: if_splits)
qed

declare list_raw_files_loop.simps [simp del]

definition list_raw_files_in_range ::
  "datetime \<Rightarrow> datetime \<Rightarrow> filesystem \<Rightarrow> error + path list" where
  "list_raw_files_in_range start_date end_date fs =
     list_raw_files_loop fs start_date end_date []"

section \<open>The loader (extraction/parquet\_loader.py)\<close>

record parquet_loader =
  base_path :: path

definition ParquetLoader_default :: parquet_loader where
  "ParquetLoader_default = \<lparr>base_path = RAW_DATA_PATH\<rparr>"

definition get_hive_partition_path :: "parquet_loader \<Rightarrow> datetime \<Rightarrow> path" where
  "get_hive_partition_path self extraction_date =
     path_div (path_div (path_div (base_path self)
       (''year='' @ str_int (year extraction_date)))
       (''month='' @ format_0d 2 (month extraction_date)))
       (''day='' @ format_0d 2 (day extraction_date))"

definition to_parquet :: "relation \<Rightarrow> path \<Rightarrow> filesystem \<Rightarrow> (error + unit) \<times> filesystem" where
  \<comment> \<open>\<^verbatim>\<open>df.to_parquet(p, ...)\<close>: creates or overwrites the file at \<open>p\<close>\<close>
  "to_parquet df p fs =
     (if p \<in> dirs fs then (Inl IsADirectoryError, fs)
      else if \<not> path_exists (butlast p) fs then (Inl (FileNotFoundError (path_str p)), fs)
      else (Inr (), fs\<lparr>files := (files fs)(p \<mapsto> df)\<rparr>))"

definition relative_to :: "path \<Rightarrow> path \<Rightarrow> error + path" where
  \<comment> \<open>\<^verbatim>\<open>p.relative_to(other)\<close> raises ValueError unless \<open>other\<close> is a leading part of \<open>p\<close>\<close>
  "relative_to p other =
     (if prefix other p then Inr (drop (length other) p) else Inl (ValueError (path_str p)))"

definition save_to_parquet ::
  "parquet_loader \<Rightarrow> relation \<Rightarrow> datetime \<Rightarrow> path \<Rightarrow> filesystem \<Rightarrow> (error + path) \<times> filesystem" where
  \<comment> \<open>\<open>cwd\<close> is \<^verbatim>\<open>Path.cwd()\<close>, used by the progress message after the write\<close>
  "save_to_parquet self df extraction_date cwd fs =
     (let partition_path = get_hive_partition_path self extraction_date
      in case ensure_path_exists partition_path fs of
           (Inl e, fs1) \<Rightarrow> (Inl e, fs1)
         | (Inr _, fs1) \<Rightarrow>
             (let filename = ''case_history_'' @ strftime_Ymd extraction_date @ ''.parquet'';
                  output_path = path_div partition_path filename
              in case to_parquet df output_path fs1 of
                   (Inl e, fs2) \<Rightarrow> (Inl e, fs2)
                 | (Inr _, fs2) \<Rightarrow>
                     (case relative_to output_path cwd of
                        Inl e \<Rightarrow> (Inl e, fs2)
                      | Inr _ \<Rightarrow> (Inr output_path, fs2))))"

section \<open>The embedded engine\<close>

text \<open>
  The SQL engine is not part of the repository. Its statements are a datatype, one
  constructor for each statement text the adapter and the reader build; \<open>sql_text\<close> below
  gives the text (white space normalised). Text supplied by a caller is kept as text.

  The model fixes only these facts of the engine: opening a database may be refused;
  a thread count below one is refused; the catalogue query of \<^verbatim>\<open>table_exists\<close> compares
  the name it is given with the listed names as strings; \<^verbatim>\<open>rollback\<close> raises when no
  transaction is active, while \<^verbatim>\<open>commit\<close> does nothing then; closing a connection
  abandons its open transaction; and \<^verbatim>\<open>fetch_df\<close> of a connection takes no query.
  Everything else (which settings and statements the engine accepts, how it resolves
  the names in a statement, what rows it answers, which tables and files it changes,
  whether it opens a transaction) is not determined by the repository: these are the
  fields \<open>open_refused\<close>, \<open>engine_rejects\<close> and \<open>engine_answer\<close> of the world. An error of
  the engine is never a Python \<^verbatim>\<open>ValueError\<close>.
\<close>

type_synonym handle = nat

datatype pcol = Year | Month | Day

datatype cmp = Eq | Ge | Le

datatype cond = Cmp pcol cmp int

datatype where_clause = Conds "cond list" | RawWhere string

datatype sql =
    SetMemoryLimit pyval
  | SetThreads pyval
  | CountTablesNamed
  | DropTableIfExists string
  | InsertIntoSelectDf string relation
  | CreateTableAsSelectDf string relation
  | InsertIntoSelectParquet string path
  | CreateTableAsSelectParquet string path
  | SelectCountFrom string
  | CopyToParquet sql path
  | Checkpoint
  | SelectHive path "where_clause option"
  | RawSql string

datatype event =
    Connected handle path
  | Executed handle sql "pyval list"
  | Committed handle
  | RolledBack handle
  | Closed handle

type_synonym catalog = "string \<rightharpoonup> relation"

text \<open>
  The data the engine works on: the files, the tables, and, while a transaction is
  active, the tables as they were when it began.
\<close>

type_synonym dbstate = "filesystem \<times> catalog \<times> catalog option"

record world =
  disk :: filesystem
  tables :: catalog
  transaction :: "catalog option"
  opened :: "handle list"
  next_handle :: handle
  events :: "event list"
  open_refused :: "path \<Rightarrow> string option"
  engine_rejects :: "sql \<Rightarrow> string option"
  engine_answer :: "sql \<Rightarrow> pyval list \<Rightarrow> dbstate \<Rightarrow> (string + relation) \<times> dbstate"

definition str_pyval :: "pyval \<Rightarrow> string" where
  "str_pyval v = (case v of PStr s \<Rightarrow> s | PInt i \<Rightarrow> str_int i | PNone \<Rightarrow> ''None'')"

definition col_name :: "pcol \<Rightarrow> string" where
  "col_name c = (case c of Year \<Rightarrow> ''year'' | Month \<Rightarrow> ''month'' | Day \<Rightarrow> ''day'')"

definition cmp_text :: "cmp \<Rightarrow> string" where
  "cmp_text c = (case c of Eq \<Rightarrow> ''='' | Ge \<Rightarrow> ''>='' | Le \<Rightarrow> ''<='')"

definition cond_text :: "cond \<Rightarrow> string" where
  "cond_text c = (case c of Cmp col op v \<Rightarrow> col_name col @ '' '' @ cmp_text op @ '' '' @ str_int v)"

fun join_and :: "string list \<Rightarrow> string" where
  \<comment> \<open>\<^verbatim>\<open>" AND ".join(xs)\<close>\<close>
  "join_and [] = []"
| "join_and [x] = x"
| "join_and (x # y # ys) = x @ '' AND '' @ join_and (y # ys)"

definition where_text :: "where_clause \<Rightarrow> string" where
  "where_text wc = (case wc of Conds cs \<Rightarrow> join_and (map cond_text cs) | RawWhere s \<Rightarrow> s)"

fun sql_text :: "sql \<Rightarrow> string" where
  "sql_text (SetMemoryLimit v) = ''SET memory_limit='' @ [CHR 0x27] @ str_pyval v @ [CHR 0x27]"
| "sql_text (SetThreads v) = ''SET threads='' @ str_pyval v"
| "sql_text CountTablesNamed =
     ''SELECT COUNT(*) FROM information_schema.tables WHERE table_name = ?''"
| "sql_text (DropTableIfExists t) = ''DROP TABLE IF EXISTS '' @ t"
| "sql_text (InsertIntoSelectDf t df) = ''INSERT INTO '' @ t @ '' SELECT * FROM df''"
| "sql_text (CreateTableAsSelectDf t df) = ''CREATE TABLE '' @ t @ '' AS SELECT * FROM df''"
| "sql_text (InsertIntoSelectParquet t p) =
     ''INSERT INTO '' @ t @ '' SELECT * FROM read_parquet('' @ [CHR 0x27] @ path_str p
       @ [CHR 0x27] @ '')''"
| "sql_text (CreateTableAsSelectParquet t p) =
     ''CREATE TABLE '' @ t @ '' AS SELECT * FROM read_parquet('' @ [CHR 0x27] @ path_str p
       @ [CHR 0x27] @ '')''"
| "sql_text (SelectCountFrom t) = ''SELECT COUNT(*) FROM '' @ t"
| "sql_text (CopyToParquet q p) =
     ''COPY ('' @ sql_text q @ '') TO '' @ [CHR 0x27] @ path_str p @ [CHR 0x27]
       @ '' (FORMAT PARQUET, COMPRESSION ZSTD)''"
| "sql_text Checkpoint = ''CHECKPOINT''"
| "sql_text (SelectHive base wc) =
     ''SELECT * FROM read_parquet('' @ [CHR 0x27] @ path_str base @ ''/**/*.parquet''
       @ [CHR 0x27] @ '', hive_partitioning = true)''
       @ (case wc of None \<Rightarrow> [] | Some c \<Rightarrow> '' WHERE '' @ where_text c)"
| "sql_text (RawSql s) = s"

definition refused :: "world \<Rightarrow> sql \<Rightarrow> string option" where
  \<comment> \<open>whether a setting or a checkpoint is refused; a thread count must be at least one\<close>
  "refused w q =
     (case q of
        SetThreads (PInt n) \<Rightarrow> if n < 1 then Some (sql_text q) else engine_rejects w q
      | _ \<Rightarrow> engine_rejects w q)"

definition setting :: "sql \<Rightarrow> world \<Rightarrow> (error + relation) \<times> world" where
  \<comment> \<open>a statement that touches neither tables nor files\<close>
  "setting q w =
     (case refused w q of
        Some msg \<Rightarrow> (Inl (EngineError msg), w)
      | None \<Rightarrow> (Inr [], w))"

definition answered :: "sql \<Rightarrow> pyval list \<Rightarrow> world \<Rightarrow> (error + relation) \<times> world" where
  \<comment> \<open>a statement on tables or files: what the engine does with it is a field of the world\<close>
  "answered q ps w =
     (case engine_answer w q ps (disk w, tables w, transaction w) of
        (r, d, t, x) \<Rightarrow>
          ((case r of Inl msg \<Rightarrow> Inl (EngineError msg) | Inr rows \<Rightarrow> Inr rows),
           w\<lparr>disk := d, tables := t, transaction := x\<rparr>))"

definition engine_exec :: "sql \<Rightarrow> pyval list \<Rightarrow> world \<Rightarrow> (error + relation) \<times> world" where
  "engine_exec q ps w =
     (case q of
        SetMemoryLimit v \<Rightarrow> setting q w
      | SetThreads v \<Rightarrow> setting q w
      | Checkpoint \<Rightarrow> setting q w
      | CountTablesNamed \<Rightarrow>
          (case ps of
             [PStr n] \<Rightarrow> (Inr [[PInt (if tables w n \<noteq> None then 1 else 0)]], w)
           | _ \<Rightarrow> (Inl (EngineError ''parameter''), w))
      | _ \<Rightarrow> answered q ps w)"

text \<open>The connection object of the engine, as the adapter and the reader use it.\<close>

definition duckdb_connect :: "path \<Rightarrow> world \<Rightarrow> (error + handle) \<times> world" where
  "duckdb_connect p w =
     (case open_refused w p of
        Some msg \<Rightarrow> (Inl (EngineError msg), w)
      | None \<Rightarrow>
          (let h = next_handle w
           in (Inr h, w\<lparr>opened := h # opened w, next_handle := h + 1,
                        events := events w @ [Connected h p]\<rparr>)))"

definition conn_execute :: "handle \<Rightarrow> sql \<Rightarrow> pyval list \<Rightarrow> world \<Rightarrow> (error + relation) \<times> world" where
  "conn_execute h q ps w = engine_exec q ps (w\<lparr>events := events w @ [Executed h q ps]\<rparr>)"

definition conn_close :: "handle \<Rightarrow> world \<Rightarrow> world" where
  \<comment> \<open>a transaction left open is abandoned\<close>
  "conn_close h w =
     w\<lparr>opened := removeAll h (opened w), events := events w @ [Closed h],
       tables := (case transaction w of None \<Rightarrow> tables w | Some before \<Rightarrow> before),
       transaction := None\<rparr>"

definition conn_commit :: "handle \<Rightarrow> world \<Rightarrow> world" where
  \<comment> \<open>ends the active transaction; without one, nothing to do\<close>
  "conn_commit h w = w\<lparr>events := events w @ [Committed h], transaction := None\<rparr>"

definition conn_rollback :: "handle \<Rightarrow> world \<Rightarrow> (error + unit) \<times> world" where
  \<comment> \<open>undoes the active transaction; without one the engine raises\<close>
  "conn_rollback h w =
     (let w' = w\<lparr>events := events w @ [RolledBack h]\<rparr>
      in case transaction w of
           None \<Rightarrow> (Inl TransactionException, w')
         | Some before \<Rightarrow> (Inr (), w'\<lparr>tables := before, transaction := None\<rparr>))"

definition conn_fetch_df :: "handle \<Rightarrow> sql \<Rightarrow> world \<Rightarrow> (error + relation) \<times> world" where
  \<comment> \<open>\<^verbatim>\<open>fetch_df\<close> of a connection returns the result of the statement executed before
      and takes no query: called with one, Python raises before the engine is reached\<close>
  "conn_fetch_df h query w = (Inl TypeError, w)"

definition fetchone :: "relation \<Rightarrow> pyval list option" where
  "fetchone r = (case r of [] \<Rightarrow> None | t # _ \<Rightarrow> Some t)"

section \<open>The adapter (config/duckdb\_adapter.py, config/database\_interface.py)\<close>

record adapter =
  db_path :: path
  memory_limit :: pyval
  threads :: pyval
  conn :: "handle option"

text \<open>
  A method is a function from the state (the adapter instance and the world) to its
  result, a raised error or a value, and the new state.
\<close>

type_synonym state = "adapter \<times> world"

type_synonym 'a action = "state \<Rightarrow> (error + 'a) \<times> state"

definition returns :: "'a \<Rightarrow> 'a action" where
  "returns x s = (Inr x, s)"

definition raises :: "error \<Rightarrow> 'a action" where
  "raises e s = (Inl e, s)"

definition then_do :: "'a action \<Rightarrow> ('a \<Rightarrow> 'b action) \<Rightarrow> 'b action" where
  "then_do m f s = (case m s of (Inl e, s') \<Rightarrow> (Inl e, s') | (Inr x, s') \<Rightarrow> f x s')"

definition on_world :: "(world \<Rightarrow> (error + 'a) \<times> world) \<Rightarrow> 'a action" where
  "on_world f s = (case s of (a, w) \<Rightarrow> (case f w of (r, w') \<Rightarrow> (r, a, w')))"

definition self_conn :: "handle action" where
  \<comment> \<open>\<^verbatim>\<open>self.conn\<close> used as a connection; a method call on \<^verbatim>\<open>None\<close> raises\<close>
  "self_conn s = (case conn (fst s) of None \<Rightarrow> (Inl AttributeError, s) | Some h \<Rightarrow> (Inr h, s))"

definition connect :: "handle action" where
  "connect s =
     (case s of (a, w) \<Rightarrow>
        (case conn a of
           None \<Rightarrow>
             (case duckdb_connect (db_path a) w of
                (Inl e, w1) \<Rightarrow> (Inl e, a, w1)
              | (Inr h, w1) \<Rightarrow>
                  then_do (on_world (conn_execute h (SetMemoryLimit (memory_limit a)) []))
                    (\<lambda>_. then_do (on_world (conn_execute h (SetThreads (threads a)) []))
                    (\<lambda>_. self_conn))
                    (a\<lparr>conn := Some h\<rparr>, w1))
         | Some h \<Rightarrow> (Inr h, a, w)))"

definition close :: "unit action" where
  "close s =
     (case s of (a, w) \<Rightarrow>
        (case conn a of
           None \<Rightarrow> (Inr (), a, w)
         | Some h \<Rightarrow> (Inr (), a\<lparr>conn := None\<rparr>, conn_close h w)))"

definition connect_if_none :: "unit action" where
  \<comment> \<open>\<^verbatim>\<open>if self.conn is None: self.connect()\<close>\<close>
  "connect_if_none s =
     (if conn (fst s) = None then then_do connect (\<lambda>_. returns ()) s else returns () s)"

definition execute :: "sql \<Rightarrow> pyval list option \<Rightarrow> relation action" where
  "execute query params =
     then_do connect_if_none (\<lambda>_.
     then_do self_conn (\<lambda>h.
       case params of \<comment> \<open>\<^verbatim>\<open>if params:\<close> holds for a non-empty list\<close>
         Some (p # ps) \<Rightarrow> on_world (conn_execute h query (p # ps))
       | _ \<Rightarrow> on_world (conn_execute h query [])))"

fun execute_each :: "sql \<Rightarrow> pyval list list \<Rightarrow> unit action" where
  "execute_each query [] = returns ()"
| "execute_each query (params # rest) =
     then_do self_conn (\<lambda>h.
     then_do (on_world (conn_execute h query params)) (\<lambda>_.
     execute_each query rest))"

definition execute_many :: "sql \<Rightarrow> pyval list list \<Rightarrow> unit action" where
  "execute_many query params_list =
     then_do connect_if_none (\<lambda>_. execute_each query params_list)"

definition fetch_one :: "sql \<Rightarrow> pyval list option \<Rightarrow> pyval list option action" where
  "fetch_one query params = then_do (execute query params) (\<lambda>result. returns (fetchone result))"

definition fetch_all :: "sql \<Rightarrow> pyval list option \<Rightarrow> relation action" where
  "fetch_all query params = then_do (execute query params) (\<lambda>result. returns result)"

definition fetch_df :: "sql \<Rightarrow> pyval list option \<Rightarrow> relation action" where
  "fetch_df query params = then_do (execute query params) (\<lambda>result. returns result)"

definition table_exists :: "string \<Rightarrow> bool action" where
  \<comment> \<open>\<^verbatim>\<open>result[0] > 0 if result else False\<close>: an empty tuple is falsy\<close>
  "table_exists table_name =
     then_do (fetch_one CountTablesNamed (Some [PStr table_name])) (\<lambda>result.
       case result of
         None \<Rightarrow> returns False
       | Some [] \<Rightarrow> returns False
       | Some (PInt n # _) \<Rightarrow> returns (n > 0)
       | Some (_ # _) \<Rightarrow> raises TypeError)"

definition already_exists :: "string \<Rightarrow> error" where
  "already_exists table_name =
     ValueError (''Table '' @ [CHR 0x27] @ table_name @ [CHR 0x27] @ '' already exists'')"

definition create_table_from_df :: "relation \<Rightarrow> string \<Rightarrow> string \<Rightarrow> unit action" where
  "create_table_from_df df table_name if_exists =
     then_do connect_if_none (\<lambda>_.
     then_do (table_exists table_name) (\<lambda>exists.
       if exists \<and> if_exists = ''fail'' then raises (already_exists table_name)
       else
         then_do (if exists \<and> if_exists = ''replace''
                  then then_do (execute (DropTableIfExists table_name) None) (\<lambda>_. returns ())
                  else returns ()) (\<lambda>_.
         then_do self_conn (\<lambda>h.
         then_do (if if_exists = ''append'' \<and> exists
                  then on_world (conn_execute h (InsertIntoSelectDf table_name df) [])
                  else on_world (conn_execute h (CreateTableAsSelectDf table_name df) [])) (\<lambda>_.
         returns ())))))"

definition create_table_from_parquet :: "path \<Rightarrow> string \<Rightarrow> string \<Rightarrow> unit action" where
  "create_table_from_parquet parquet_path table_name if_exists =
     (\<lambda>s. if \<not> path_exists parquet_path (disk (snd s)) then
            raises (FileNotFoundError (''Parquet file not found: '' @ path_str parquet_path)) s
          else
            then_do (table_exists table_name) (\<lambda>exists.
              if exists \<and> if_exists = ''fail'' then raises (already_exists table_name)
              else
                then_do (if exists \<and> if_exists = ''replace''
                         then then_do (execute (DropTableIfExists table_name) None) (\<lambda>_. returns ())
                         else returns ()) (\<lambda>_.
                then_do (execute (if if_exists = ''append'' \<and> exists
                                  then InsertIntoSelectParquet table_name parquet_path
                                  else CreateTableAsSelectParquet table_name parquet_path) None) (\<lambda>_.
                then_do (fetch_one (SelectCountFrom table_name) None) (\<lambda>row.
                  case row of
                    None \<Rightarrow> raises TypeError
                  | Some [] \<Rightarrow> raises IndexError
                  | Some (count # _) \<Rightarrow> returns ())))) s)"

definition export_to_parquet :: "sql \<Rightarrow> path \<Rightarrow> pyval list option \<Rightarrow> unit action" where
  "export_to_parquet query output_path params =
     then_do (on_world (\<lambda>w. case mkdir_parents (butlast output_path) (disk w) of
                                (r, fs') \<Rightarrow> (r, w\<lparr>disk := fs'\<rparr>))) (\<lambda>_.
     then_do (execute (CopyToParquet query output_path) params) (\<lambda>_.
     returns ()))"

definition get_table_info :: "string \<Rightarrow> relation action" where
  "get_table_info table_name = fetch_df (RawSql (''DESCRIBE '' @ table_name)) None"

definition commit :: "unit action" where
  "commit s =
     (case s of (a, w) \<Rightarrow>
        (case conn a of None \<Rightarrow> (Inr (), a, w) | Some h \<Rightarrow> (Inr (), a, conn_commit h w)))"

definition rollback :: "unit action" where
  "rollback s =
     (case s of (a, w) \<Rightarrow>
        (case conn a of
           None \<Rightarrow> (Inr (), a, w)
         | Some h \<Rightarrow> (case conn_rollback h w of (r, w') \<Rightarrow> (r, a, w'))))"

definition vacuum :: "unit action" where
  "vacuum =
     then_do connect_if_none (\<lambda>_.
     then_do self_conn (\<lambda>h.
     then_do (on_world (conn_execute h Checkpoint [])) (\<lambda>_.
     returns ())))"

text \<open>
  The context manager of \<^verbatim>\<open>DatabaseInterface\<close>. What \<^verbatim>\<open>with db as c\<close> binds is a Python
  object: the adapter instance or a connection of the engine.
\<close>

datatype pyobject = Adapter_object | Connection_object handle

definition enter :: "pyobject action" where
  \<comment> \<open>\<^verbatim>\<open>return self.connect()\<close>\<close>
  "enter = then_do connect (\<lambda>h. returns (Connection_object h))"

definition exit_scope :: "bool \<Rightarrow> unit action" where
  \<comment> \<open>\<^verbatim>\<open>__exit__\<close>; the flag is \<^verbatim>\<open>exc_type is not None\<close>. The two calls are in
      sequence, without \<^verbatim>\<open>try\<close>: when \<^verbatim>\<open>rollback\<close> raises, \<^verbatim>\<open>close\<close> is not called\<close>
  "exit_scope exc =
     then_do (if exc then rollback else returns ()) (\<lambda>_. close)"

definition with_db :: "(pyobject \<Rightarrow> 'a action) \<Rightarrow> 'a action" where
  \<comment> \<open>\<^verbatim>\<open>with self.db as c: body\<close>; \<^verbatim>\<open>__exit__\<close> returns None, so an error of the body
      is raised again after it; an error raised by \<^verbatim>\<open>__exit__\<close> itself replaces it\<close>
  "with_db body s =
     (case enter s of
        (Inl e, s1) \<Rightarrow> (Inl e, s1)
      | (Inr c, s1) \<Rightarrow>
          (case body c s1 of
             (Inl e, s2) \<Rightarrow>
               (case exit_scope True s2 of
                  (Inl e', s3) \<Rightarrow> (Inl e', s3)
                | (Inr _, s3) \<Rightarrow> (Inl e, s3))
           | (Inr v, s2) \<Rightarrow>
               (case exit_scope False s2 of
                  (Inl e', s3) \<Rightarrow> (Inl e', s3)
                | (Inr _, s3) \<Rightarrow> (Inr v, s3))))"

section \<open>The factory (config/database\_config.py)\<close>

definition ascii_uppercase :: string where
  "ascii_uppercase = ''ABCDEFGHIJKLMNOPQRSTUVWXYZ''"

definition ascii_lowercase :: string where
  "ascii_lowercase = ''abcdefghijklmnopqrstuvwxyz''"

text \<open>
  \<^verbatim>\<open>str.lower\<close>, \<^verbatim>\<open>str.upper\<close> and \<^verbatim>\<open>str.strip\<close>. A character of \<^typ>\<open>char\<close> is a code
  point below 256. The 26 letters change case; so do the accented letters from
  \<^verbatim>\<open>0xC0\<close> to \<^verbatim>\<open>0xFE\<close> (the signs \<^verbatim>\<open>0xD7\<close> and \<^verbatim>\<open>0xF7\<close> apart), and \<^verbatim>\<open>upper\<close> turns the
  sharp s \<^verbatim>\<open>0xDF\<close> into two letters. The capitals of \<^verbatim>\<open>0xB5\<close> and \<^verbatim>\<open>0xFF\<close> lie beyond 255;
  these two characters are kept, and no capital of theirs is an ASCII letter. White
  space is what \<^verbatim>\<open>str.isspace\<close> accepts below 256.
\<close>

definition lower_char :: "char \<Rightarrow> char" where
  "lower_char c = (case map_of (zip ascii_uppercase ascii_lowercase) c of None \<Rightarrow> c | Some l \<Rightarrow> l)"

definition upper_char :: "char \<Rightarrow> char" where
  "upper_char c = (case map_of (zip ascii_lowercase ascii_uppercase) c of None \<Rightarrow> c | Some u \<Rightarrow> u)"

definition accented_capital :: "char \<Rightarrow> bool" where
  "accented_capital c = (0xC0 \<le> (of_char c :: nat) \<and> (of_char c :: nat) \<le> 0xDE \<and> c \<noteq> CHR 0xD7)"

definition accented_small :: "char \<Rightarrow> bool" where
  "accented_small c = (0xE0 \<le> (of_char c :: nat) \<and> (of_char c :: nat) \<le> 0xFE \<and> c \<noteq> CHR 0xF7)"

definition lower_str :: "char \<Rightarrow> string" where
  "lower_str c =
     (if accented_capital c then [char_of ((of_char c :: nat) + 0x20)] else [lower_char c])"

definition upper_str :: "char \<Rightarrow> string" where
  "upper_str c =
     (if c = CHR 0xDF then ''SS''
      else if accented_small c then [char_of ((of_char c :: nat) - 0x20)]
      else [upper_char c])"

definition lower :: "string \<Rightarrow> string" where
  "lower s = concat (map lower_str s)"

definition upper :: "string \<Rightarrow> string" where
  "upper s = concat (map upper_str s)"

definition is_space :: "char \<Rightarrow> bool" where
  "is_space c = (c \<in> set [CHR 0x09, CHR 0x0A, CHR 0x0B, CHR 0x0C, CHR 0x0D,
                            CHR 0x1C, CHR 0x1D, CHR 0x1E, CHR 0x1F, CHR 0x20,
                            CHR 0x85, CHR 0xA0])"

definition strip :: "string \<Rightarrow> string" where
  "strip s = rev (dropWhile is_space (rev (dropWhile is_space s)))"

definition startswith :: "string \<Rightarrow> string \<Rightarrow> bool" where
  "startswith s p = (take (length p) s = p)"

fun split_slash :: "string \<Rightarrow> string \<Rightarrow> string list" where
  \<comment> \<open>the pieces between slashes; the first argument is the piece being read\<close>
  "split_slash acc [] = [acc]"
| "split_slash acc (c # cs) =
     (if c = CHR ''/'' then acc # split_slash [] cs else split_slash (acc @ [c]) cs)"

definition Path :: "string \<Rightarrow> path" where
  \<comment> \<open>\<^verbatim>\<open>Path(s)\<close> on POSIX: empty and \<^verbatim>\<open>.\<close> pieces vanish; a leading slash is the root,
      exactly two leading slashes are the root \<^verbatim>\<open>//\<close>\<close>
  "Path s =
     (let root = (if startswith s ''//'' \<and> \<not> startswith s ''///'' then [''//'']
                  else if startswith s ''/'' then [''/''] else [])
      in root @ filter (\<lambda>piece. piece \<noteq> [] \<and> piece \<noteq> ''.'') (split_slash [] s))"

definition DEFAULT_MEMORY_LIMIT :: pyval where
  "DEFAULT_MEMORY_LIMIT = PStr ''4GB''"

definition DEFAULT_THREADS :: pyval where
  "DEFAULT_THREADS = PInt 4"

definition kwargs_get :: "(string \<rightharpoonup> pyval) \<Rightarrow> string \<Rightarrow> pyval \<Rightarrow> pyval" where
  \<comment> \<open>\<^verbatim>\<open>kwargs.get(key, default)\<close>\<close>
  "kwargs_get kwargs key dflt = (case kwargs key of None \<Rightarrow> dflt | Some v \<Rightarrow> v)"

definition DuckDBAdapter :: "string \<Rightarrow> pyval \<Rightarrow> pyval \<Rightarrow> adapter" where
  \<comment> \<open>the constructor\<close>
  "DuckDBAdapter p ml th = \<lparr>db_path = Path p, memory_limit = ml, threads = th, conn = None\<rparr>"

definition get_database :: "string \<Rightarrow> string \<Rightarrow> (string \<rightharpoonup> pyval) \<Rightarrow> error + adapter" where
  "get_database db_type p kwargs =
     (if lower db_type = ''duckdb'' then
        Inr (DuckDBAdapter p
               (kwargs_get kwargs ''memory_limit'' DEFAULT_MEMORY_LIMIT)
               (kwargs_get kwargs ''threads'' DEFAULT_THREADS))
      else Inl (ValueError (''Unsupported database type: '' @ db_type)))"

definition get_default_database :: "error + adapter" where
  "get_default_database = get_database ''duckdb'' DB_PATH Map.empty"

section \<open>The reader (transformation/duckdb\_reader.py)\<close>

text \<open>
  The reader calls \<^verbatim>\<open>fetch_df(query)\<close> on the object its \<^verbatim>\<open>with\<close> statement binds. On the
  adapter that is the method above; on a connection of the engine it is the method of
  the connection.
\<close>

definition call_fetch_df :: "pyobject \<Rightarrow> sql \<Rightarrow> relation action" where
  \<comment> \<open>\<^verbatim>\<open>obj.fetch_df(query)\<close>, resolved on the class of \<open>obj\<close>\<close>
  "call_fetch_df obj query =
     (case obj of
        Adapter_object \<Rightarrow> fetch_df query None
      | Connection_object h \<Rightarrow> on_world (conn_fetch_df h query))"

record duckdb_reader =
  raw_path :: path

definition DuckDBReader :: "error + duckdb_reader \<times> adapter" where
  \<comment> \<open>the constructor: the reader and the adapter it holds in \<^verbatim>\<open>self.db\<close>\<close>
  "DuckDBReader =
     (case get_default_database of
        Inl e \<Rightarrow> Inl e
      | Inr db \<Rightarrow> Inr (\<lparr>raw_path = RAW_DATA_PATH\<rparr>, db))"

definition read_all_cases :: "duckdb_reader \<Rightarrow> relation action" where
  "read_all_cases self =
     with_db (\<lambda>c. call_fetch_df c (SelectHive (raw_path self) None))"

definition read_cases_by_date ::
  "duckdb_reader \<Rightarrow> int \<Rightarrow> int option \<Rightarrow> int option \<Rightarrow> relation action" where
  "read_cases_by_date self y m d =
     with_db (\<lambda>c.
       let where_clauses = [Cmp Year Eq y];
           where_clauses = (case m of None \<Rightarrow> where_clauses
                            | Some mv \<Rightarrow> where_clauses @ [Cmp Month Eq mv]);
           where_clauses = (case d of None \<Rightarrow> where_clauses
                            | Some dv \<Rightarrow> where_clauses @ [Cmp Day Eq dv]);
           where_clause = Conds where_clauses
       in call_fetch_df c (SelectHive (raw_path self) (Some where_clause)))"

definition read_cases_by_date_range ::
  "duckdb_reader \<Rightarrow> datetime \<Rightarrow> datetime \<Rightarrow> relation action" where
  "read_cases_by_date_range self start_date end_date =
     with_db (\<lambda>c.
       call_fetch_df c
         (SelectHive (raw_path self)
            (Some (Conds [Cmp Year Ge (year start_date), Cmp Year Le (year end_date),
                          Cmp Month Ge (month start_date), Cmp Month Le (month end_date)]))))"

definition query_cases :: "duckdb_reader \<Rightarrow> string \<Rightarrow> relation action" where
  "query_cases self sql_filter =
     with_db (\<lambda>c.
       let query = (if startswith (upper (strip sql_filter)) ''SELECT''
                    then RawSql sql_filter
                    else SelectHive (raw_path self) (Some (RawWhere sql_filter)))
       in call_fetch_df c query)"

section \<open>Notions used by the statements\<close>






text \<open>Dates and an empty file system used to run the code on a concrete input.\<close>

definition example_date :: datetime where
  "example_date =
     \<lparr>year = 2025, month = 2, day = 11, hour = 0, minute = 0, second = 0, microsecond = 0\<rparr>"


definition empty_fs :: filesystem where
  "empty_fs = \<lparr>dirs = {}, files = Map.empty\<rparr>"

definition same_data :: "world \<Rightarrow> world \<Rightarrow> bool" where
  \<comment> \<open>the files, the tables and the transaction are the same in both worlds, and the
      engine behaves the same\<close>
  "same_data w w' =
     (disk w' = disk w \<and> tables w' = tables w \<and> transaction w' = transaction w \<and>
      open_refused w' = open_refused w \<and> engine_rejects w' = engine_rejects w \<and>
      engine_answer w' = engine_answer w)"

definition single_connection :: "state \<Rightarrow> bool" where
  \<comment> \<open>the open connections are exactly the one the adapter holds, if any\<close>
  "single_connection s = (opened (snd s) = (case conn (fst s) of None \<Rightarrow> [] | Some h \<Rightarrow> [h]))"

definition keeps_single_connection :: "'a action \<Rightarrow> bool" where
  "keeps_single_connection m = (\<forall>s. single_connection s \<longrightarrow> single_connection (snd (m s)))"

fun is_Connected :: "event \<Rightarrow> bool" where
  "is_Connected (Connected h p) = True"
| "is_Connected _ = False"

definition connections_made :: "world \<Rightarrow> nat" where
  "connections_made w = length (filter is_Connected (events w))"

definition never_reconnects :: "'a action \<Rightarrow> bool" where
  \<comment> \<open>called with a connection, the method keeps it and opens no other\<close>
  "never_reconnects m =
     (\<forall>s. conn (fst s) \<noteq> None \<longrightarrow>
        conn (fst (snd (m s))) = conn (fst s) \<and>
        connections_made (snd (snd (m s))) = connections_made (snd s))"

definition steady :: "'a action \<Rightarrow> bool" where
  "steady m = (keeps_single_connection m \<and> never_reconnects m)"

definition either_case :: "string \<Rightarrow> string \<Rightarrow> string \<Rightarrow> bool" where
  \<comment> \<open>\<open>s\<close> spells the word, each letter in lower or in upper case\<close>
  "either_case lo up s = list_all2 (\<lambda>c (l, u). c = l \<or> c = u) s (zip lo up)"

definition is_duckdb_name :: "string \<Rightarrow> bool" where
  "is_duckdb_name s = either_case ''duckdb'' ''DUCKDB'' s"

definition begins_with_select :: "string \<Rightarrow> bool" where
  \<comment> \<open>after the leading white space come the six letters of SELECT, in either case\<close>
  "begins_with_select s = either_case ''select'' ''SELECT'' (take 6 (dropWhile is_space s))"

definition same_name :: "string \<Rightarrow> string \<Rightarrow> bool" where
  \<comment> \<open>the same table name up to the case of its ASCII letters\<close>
  "same_name a b = (map lower_char a = map lower_char b)"

definition empty_world :: world where
  \<comment> \<open>nothing stored, nothing open, an engine that accepts every statement and answers
      no rows\<close>
  "empty_world =
     \<lparr>disk = empty_fs, tables = Map.empty, transaction = None, opened = [],
      next_handle = 0, events = [], open_refused = (\<lambda>_. None),
      engine_rejects = (\<lambda>_. None), engine_answer = (\<lambda>_ _ st. (Inr [], st))\<rparr>"

definition example_reader :: duckdb_reader where
  "example_reader = \<lparr>raw_path = RAW_DATA_PATH\<rparr>"

definition example_adapter :: adapter where
  "example_adapter = DuckDBAdapter DB_PATH DEFAULT_MEMORY_LIMIT DEFAULT_THREADS"

definition connected_adapter :: adapter where
  "connected_adapter = example_adapter\<lparr>conn := Some 0\<rparr>"

definition connected_world :: world where
  \<comment> \<open>the empty world after the example adapter has connected\<close>
  "connected_world =
     empty_world\<lparr>opened := [0], next_handle := 1,
       events := [Connected 0 (Path DB_PATH), Executed 0 (SetMemoryLimit DEFAULT_MEMORY_LIMIT) [],
                  Executed 0 (SetThreads DEFAULT_THREADS) []]\<rparr>"

definition stored_world :: world where
  \<comment> \<open>a world whose catalogue lists one table, \<^verbatim>\<open>cases\<close>\<close>
  "stored_world = empty_world\<lparr>tables := [''cases'' \<mapsto> [[PInt 1]]]\<rparr>"

definition zero_threads_adapter :: adapter where
  "zero_threads_adapter = DuckDBAdapter DB_PATH DEFAULT_MEMORY_LIMIT (PInt 0)"

section \<open>Formatting lemmas\<close>






lemma replicate_2: "replicate 2 c = [c, c]"
  by (simp add: numeral_2_eq_2)









section \<open>The loader's partition layout\<close>










section \<open>Discovery by date range against the loader's files\<close>

lemma example_raw_file_path:
  "get_raw_file_path example_date =
     [''data'', ''raw'', ''case_history'', ''2025'', ''02'', ''11'', ''casos_rrhh_20250211.parquet'']"
  by (simp add: get_raw_file_path_def get_raw_data_path_def path_div_def RAW_DATA_PATH_def
      example_date_def strftime_Ymd_def format_0d_def str_int_def digits_of.simps digit_char_def)

lemma example_hive_path:
  "get_hive_partition_path ParquetLoader_default example_date =
     [''data'', ''raw'', ''case_history'', ''year=2025'', ''month=02'', ''day=11'']"
  by (simp add: get_hive_partition_path_def path_div_def ParquetLoader_default_def RAW_DATA_PATH_def
      example_date_def format_0d_def str_int_def digits_of.simps digit_char_def)

lemma example_strftime: "strftime_Ymd example_date = ''20250211''"
  by (simp add: example_date_def strftime_Ymd_def format_0d_def str_int_def digits_of.simps
      digit_char_def)

lemma example_save:
  "save_to_parquet ParquetLoader_default [[PInt 7]] example_date [''/'', ''srv''] empty_fs =
     (Inl (ValueError ''data/raw/case_history/year=2025/month=02/day=11/case_history_20250211.parquet''),
      \<lparr>dirs = set (prefixes [''data'', ''raw'', ''case_history'', ''year=2025'', ''month=02'', ''day=11'']),
       files = [[''data'', ''raw'', ''case_history'', ''year=2025'', ''month=02'', ''day=11'',
                 ''case_history_20250211.parquet''] \<mapsto> [[PInt 7]]]\<rparr>)"
  unfolding save_to_parquet_def Let_def example_hive_path example_strftime
  by (simp add: ensure_path_exists_def mkdir_parents_def to_parquet_def path_exists_def
      relative_to_def path_div_def empty_fs_def path_str_def)

lemma example_next_day:
  "add_one_day example_date = Inr (example_date\<lparr>day := 12\<rparr>)"
  by (simp add: add_one_day_def example_date_def days_in_month_def is_leap_def)

lemma discovery_path_differs:
  "get_raw_file_path d \<noteq>
     path_div (get_hive_partition_path self d) (''case_history_'' @ strftime_Ymd d @ ''.parquet'')"
  by (simp add: get_raw_file_path_def path_div_def)

text \<open>
  C1. The loader writes the partition file of 2025-02-11 into an empty file system, at
  its Hive-style path. The day-by-day discovery over the range from that date to that
  date tests another path, with plain directory names and another file name, and
  returns no file.
\<close>

theorem discovery_misses_loader_file:
  "files (snd (save_to_parquet ParquetLoader_default [[PInt 7]] example_date [''/'', ''srv'']
                 empty_fs))
     [''data'', ''raw'', ''case_history'', ''year=2025'', ''month=02'', ''day=11'',
      ''case_history_20250211.parquet''] = Some [[PInt 7]] \<and>
   get_raw_file_path example_date =
     [''data'', ''raw'', ''case_history'', ''2025'', ''02'', ''11'',
      ''casos_rrhh_20250211.parquet''] \<and>
   list_raw_files_in_range example_date example_date
     (snd (save_to_parquet ParquetLoader_default [[PInt 7]] example_date [''/'', ''srv'']
             empty_fs)) = Inr []"
proof -
  define fs1 where "fs1 = snd (save_to_parquet ParquetLoader_default [[PInt 7]] example_date
                                 [''/'', ''srv''] empty_fs)"
  have wr: "files fs1 [''data'', ''raw'', ''case_history'', ''year=2025'', ''month=02'',
                       ''day=11'', ''case_history_20250211.parquet''] = Some [[PInt 7]]"
    by (simp add: fs1_def example_save)
  have ne: "\<not> path_exists (get_raw_file_path example_date) fs1"
    by (simp add: fs1_def example_save example_raw_file_path path_exists_def)
  have le0: "datetime_le example_date example_date"
    by (simp add: datetime_le_def)
  have le1: "\<not> datetime_le (example_date\<lparr>day := 12\<rparr>) example_date"
    by (simp add: datetime_le_def example_date_def)
  have stop: "list_raw_files_loop fs1 (example_date\<lparr>day := 12\<rparr>) example_date [] = Inr []"
    by (subst list_raw_files_loop.simps) (simp only: le1 if_False)
  have "list_raw_files_loop fs1 example_date example_date [] = Inr []"
    by (subst list_raw_files_loop.simps)
       (simp only: le0 ne if_True if_False Let_def example_next_day sum.case stop)
  then have "list_raw_files_in_range example_date example_date fs1 = Inr []"
    by (simp only: list_raw_files_in_range_def)
  with wr example_raw_file_path show ?thesis
    by (simp only: fs1_def simp_thms)
qed

section \<open>The connection of the adapter\<close>

lemma connect_connected: "conn a = Some h \<Longrightarrow> connect (a, w) = (Inr h, a, w)"
  by (simp add: connect_def)

lemma setting_result:
  "setting q w = (case refused w q of Some msg \<Rightarrow> Inl (EngineError msg) | None \<Rightarrow> Inr [], w)"
  by (simp add: setting_def split: option.splits)

lemma refused_update [simp]:
  "refused (w\<lparr>events := es\<rparr>) q = refused w q"
  "refused (w\<lparr>opened := os\<rparr>) q = refused w q"
  "refused (w\<lparr>next_handle := n\<rparr>) q = refused w q"
  by (simp_all add: refused_def split: sql.splits pyval.splits)

lemma connect_fresh:
  assumes "conn a = None"
  shows "connect (a, w) =
    (case open_refused w (db_path a) of
       Some msg \<Rightarrow> (Inl (EngineError msg), a, w)
     | None \<Rightarrow>
        (case refused w (SetMemoryLimit (memory_limit a)) of
           Some msg \<Rightarrow>
             (Inl (EngineError msg), a\<lparr>conn := Some (next_handle w)\<rparr>,
              w\<lparr>opened := next_handle w # opened w, next_handle := next_handle w + 1,
                events := events w @ [Connected (next_handle w) (db_path a),
                            Executed (next_handle w) (SetMemoryLimit (memory_limit a)) []]\<rparr>)
         | None \<Rightarrow>
             (case refused w (SetThreads (threads a)) of
                Some msg \<Rightarrow> Inl (EngineError msg)
              | None \<Rightarrow> Inr (next_handle w),
              a\<lparr>conn := Some (next_handle w)\<rparr>,
              w\<lparr>opened := next_handle w # opened w, next_handle := next_handle w + 1,
                events := events w @ [Connected (next_handle w) (db_path a),
                            Executed (next_handle w) (SetMemoryLimit (memory_limit a)) [],
                            Executed (next_handle w) (SetThreads (threads a)) []]\<rparr>)))"
  using assms
  by (simp add: connect_def duckdb_connect_def Let_def then_do_def on_world_def conn_execute_def
      engine_exec_def setting_result self_conn_def split: option.splits)

lemma connect_ok:
  assumes "fst (connect (a, w)) = Inr h"
  shows "\<exists>a' w'. connect (a, w) = (Inr h, a', w') \<and> conn a' = Some h \<and> same_data w w'"
proof (cases "conn a")
  case None
  from assms show ?thesis
    unfolding connect_fresh [OF None]
    by (auto simp: same_data_def split: option.splits)
next
  case (Some h')
  with assms show ?thesis
    by (simp add: connect_connected same_data_def)
qed

lemma connect_failed:
  assumes "fst (connect (a, w)) = Inl e"
  shows "\<exists>msg. e = EngineError msg"
proof (cases "conn a")
  case None
  from assms show ?thesis
    unfolding connect_fresh [OF None]
    by (auto split: option.splits)
next
  case (Some h')
  with assms show ?thesis
    by (simp add: connect_connected)
qed

lemma connect_if_none_connected:
  "conn a = Some h \<Longrightarrow> connect_if_none (a, w) = (Inr (), a, w)"
  by (simp add: connect_if_none_def returns_def)

lemma connect_if_none_ok:
  assumes "fst (connect_if_none (a, w)) = Inr ()"
  shows "\<exists>h a' w'. connect_if_none (a, w) = (Inr (), a', w') \<and> conn a' = Some h \<and>
           same_data w w'"
proof (cases "conn a")
  case None
  obtain r a' w' where c: "connect (a, w) = (r, a', w')"
    by (cases "connect (a, w)") auto
  with assms None obtain h where r: "r = Inr h"
    by (cases r) (simp_all add: connect_if_none_def then_do_def returns_def)
  with c connect_ok [of a w h] have "conn a' = Some h \<and> same_data w w'"
    by simp
  with c r None show ?thesis
    by (simp add: connect_if_none_def then_do_def returns_def)
next
  case (Some h)
  then show ?thesis
    by (simp add: connect_if_none_connected same_data_def)
qed

lemma execute_connected:
  "conn a = Some h \<Longrightarrow>
   execute q params (a, w) =
     (case conn_execute h q (case params of None \<Rightarrow> [] | Some ps \<Rightarrow> ps) w of
        (r, w') \<Rightarrow> (r, a, w'))"
  by (simp add: execute_def then_do_def connect_if_none_connected self_conn_def on_world_def
      split: option.splits list.splits)

lemma table_exists_connected:
  "conn a = Some h \<Longrightarrow>
   table_exists n (a, w) =
     (Inr (tables w n \<noteq> None), a,
      w\<lparr>events := events w @ [Executed h CountTablesNamed [PStr n]]\<rparr>)"
  by (simp add: table_exists_def fetch_one_def then_do_def execute_connected conn_execute_def
      engine_exec_def fetchone_def returns_def)

lemma example_connect:
  "connect (example_adapter, empty_world) = (Inr 0, connected_adapter, connected_world)"
  by (simp add: connect_fresh example_adapter_def DuckDBAdapter_def empty_world_def
      connected_adapter_def connected_world_def refused_def DEFAULT_THREADS_def)

section \<open>Creating a table that exists\<close>

lemma answered_error: "fst (answered q ps w) \<noteq> Inl (ValueError msg)"
  by (simp add: answered_def split: prod.splits sum.splits)

lemma create_table_fail_connected:
  "conn a = Some h \<Longrightarrow>
   create_table_from_df df n ''fail'' (a, w) =
     (if tables w n \<noteq> None
      then (Inl (already_exists n), a,
            w\<lparr>events := events w @ [Executed h CountTablesNamed [PStr n]]\<rparr>)
      else (case answered (CreateTableAsSelectDf n df) []
                   (w\<lparr>events := events w @ [Executed h CountTablesNamed [PStr n],
                                            Executed h (CreateTableAsSelectDf n df) []]\<rparr>) of
              (r, w') \<Rightarrow> ((case r of Inl e \<Rightarrow> Inl e | Inr rows \<Rightarrow> Inr ()), a, w')))"
  by (simp add: create_table_from_df_def then_do_def connect_if_none_connected
      table_exists_connected raises_def returns_def self_conn_def on_world_def conn_execute_def
      engine_exec_def split: prod.splits sum.splits)

lemma same_name_refl: "same_name n n"
  by (simp add: same_name_def)

lemma zero_threads_connect:
  "connect (zero_threads_adapter, stored_world) =
     (Inl (EngineError ''SET threads=0''), zero_threads_adapter\<lparr>conn := Some 0\<rparr>,
      stored_world\<lparr>opened := [0], next_handle := 1,
        events := [Connected 0 (Path DB_PATH), Executed 0 (SetMemoryLimit DEFAULT_MEMORY_LIMIT) [],
                   Executed 0 (SetThreads (PInt 0)) []]\<rparr>)"
  by (simp add: connect_fresh zero_threads_adapter_def DuckDBAdapter_def stored_world_def
      empty_world_def refused_def str_pyval_def str_int_def digits_of.simps digit_char_def)

text \<open>
  C5, as stated, fails when the connection cannot be set up. An adapter constructed
  with a thread count of zero and not yet connected is asked to create the table
  \<^verbatim>\<open>cases\<close>, which the catalogue lists: \<^verbatim>\<open>connect\<close> raises the error of the engine for
  \<^verbatim>\<open>SET threads=0\<close> before the existence test, so a table named \<open>n\<close> exists and the error
  raised is not a value error.
\<close>

theorem create_table_fail_counterexample:
  "tables stored_world ''cases'' = Some [[PInt 1]] \<and>
   fst (create_table_from_df [[PInt 2]] ''cases'' ''fail'' (zero_threads_adapter, stored_world)) =
     Inl (EngineError ''SET threads=0'') \<and>
   (\<forall>msg. fst (create_table_from_df [[PInt 2]] ''cases'' ''fail''
                  (zero_threads_adapter, stored_world)) \<noteq> Inl (ValueError msg))"
proof -
  have c: "conn zero_threads_adapter = None"
    by (simp add: zero_threads_adapter_def DuckDBAdapter_def)
  have "fst (create_table_from_df [[PInt 2]] ''cases'' ''fail'' (zero_threads_adapter, stored_world)) =
     Inl (EngineError ''SET threads=0'')"
    by (simp add: create_table_from_df_def then_do_def connect_if_none_def c zero_threads_connect)
  moreover have "tables stored_world ''cases'' = Some [[PInt 1]]"
    by (simp add: stored_world_def)
  ultimately show ?thesis by simp
qed

text \<open>
  C5, amended. Let the adapter hold a connection, or be able to open and configure
  one. If the catalogue lists a table under exactly the name \<open>n\<close>,
  \<^verbatim>\<open>create_table_from_df(df, n, if_exists='fail')\<close> raises the value error, and the tables,
  the files and the transaction are what they were: after connecting, the only
  statement that reaches the engine is the catalogue query. If the catalogue lists no
  table whose name is \<open>n\<close> up to the case of its letters, no value error is raised.
\<close>

theorem create_table_fail_when_listed:
  assumes "fst (connect_if_none (a, w)) = Inr ()"
  shows "(tables w n \<noteq> None \<longrightarrow>
            fst (create_table_from_df df n ''fail'' (a, w)) = Inl (already_exists n) \<and>
            tables (snd (snd (create_table_from_df df n ''fail'' (a, w)))) = tables w \<and>
            disk (snd (snd (create_table_from_df df n ''fail'' (a, w)))) = disk w \<and>
            transaction (snd (snd (create_table_from_df df n ''fail'' (a, w)))) = transaction w \<and>
            (\<exists>h. events (snd (snd (create_table_from_df df n ''fail'' (a, w)))) =
                    events (snd (snd (connect_if_none (a, w)))) @
                      [Executed h CountTablesNamed [PStr n]])) \<and>
         ((\<forall>k. tables w k \<noteq> None \<longrightarrow> \<not> same_name k n) \<longrightarrow>
            (\<forall>msg. fst (create_table_from_df df n ''fail'' (a, w)) \<noteq> Inl (ValueError msg)))"
proof -
  obtain h a' w' where c: "connect_if_none (a, w) = (Inr (), a', w')"
    and h: "conn a' = Some h" and e: "same_data w w'"
    using connect_if_none_ok [OF assms] by blast
  have t: "tables w' = tables w" and d: "disk w' = disk w" and x: "transaction w' = transaction w"
    using e by (simp_all add: same_data_def)
  have c': "connect_if_none (a', w') = (Inr (), a', w')"
    using h by (rule connect_if_none_connected)
  have r: "create_table_from_df df n ''fail'' (a, w) = create_table_from_df df n ''fail'' (a', w')"
    by (simp add: create_table_from_df_def then_do_def c c')
  have 1: "tables w n \<noteq> None \<longrightarrow>
            fst (create_table_from_df df n ''fail'' (a, w)) = Inl (already_exists n) \<and>
            tables (snd (snd (create_table_from_df df n ''fail'' (a, w)))) = tables w \<and>
            disk (snd (snd (create_table_from_df df n ''fail'' (a, w)))) = disk w \<and>
            transaction (snd (snd (create_table_from_df df n ''fail'' (a, w)))) = transaction w \<and>
            (\<exists>h. events (snd (snd (create_table_from_df df n ''fail'' (a, w)))) =
                    events (snd (snd (connect_if_none (a, w)))) @
                      [Executed h CountTablesNamed [PStr n]])"
    by (simp add: r create_table_fail_connected [OF h] t d x c)
  have 2: "\<forall>msg. fst (create_table_from_df df n ''fail'' (a, w)) \<noteq> Inl (ValueError msg)"
    if "\<forall>k. tables w k \<noteq> None \<longrightarrow> \<not> same_name k n"
  proof -
    from that same_name_refl [of n] have none: "tables w n = None" by blast
    define w2 where "w2 = w'\<lparr>events := events w' @ [Executed h CountTablesNamed [PStr n],
                                       Executed h (CreateTableAsSelectDf n df) []]\<rparr>"
    obtain r2 w3 where an: "answered (CreateTableAsSelectDf n df) [] w2 = (r2, w3)"
      by (cases "answered (CreateTableAsSelectDf n df) [] w2") auto
    have ne: "r2 \<noteq> Inl (ValueError msg)" for msg
      using answered_error [of "CreateTableAsSelectDf n df" "[]" w2 msg] an by simp
    have "fst (create_table_from_df df n ''fail'' (a, w)) =
            (case r2 of Inl e \<Rightarrow> Inl e | Inr rows \<Rightarrow> Inr ())"
      using none an by (simp add: r create_table_fail_connected [OF h] t w2_def)
    with ne show ?thesis
      by (cases r2) auto
  qed
  from 1 2 show ?thesis by blast
qed

theorem create_table_fail_when_listed_witness:
  "fst (connect_if_none (example_adapter, stored_world)) = Inr () \<and>
   tables stored_world ''cases'' \<noteq> None \<and>
   fst (create_table_from_df [[PInt 2]] ''cases'' ''fail'' (example_adapter, stored_world)) =
     Inl (already_exists ''cases'') \<and>
   tables (snd (snd (create_table_from_df [[PInt 2]] ''cases'' ''fail''
                       (example_adapter, stored_world)))) ''cases'' = Some [[PInt 1]] \<and>
   tables stored_world ''orders'' = None \<and>
   (\<forall>msg. fst (create_table_from_df [[PInt 2]] ''orders'' ''fail''
                  (example_adapter, stored_world)) \<noteq> Inl (ValueError msg))"
proof -
  have c: "fst (connect_if_none (example_adapter, stored_world)) = Inr ()"
    by (simp add: connect_if_none_def then_do_def returns_def connect_fresh example_adapter_def
        DuckDBAdapter_def stored_world_def empty_world_def refused_def DEFAULT_THREADS_def)
  have t: "tables stored_world ''cases'' \<noteq> None"
    by (simp add: stored_world_def)
  have v: "tables stored_world ''cases'' = Some [[PInt 1]]"
    by (simp add: stored_world_def)
  have o: "\<forall>k. tables stored_world k \<noteq> None \<longrightarrow> \<not> same_name k ''orders''"
    by (simp add: stored_world_def same_name_def lower_char_def ascii_uppercase_def
        ascii_lowercase_def)
  note a = create_table_fail_when_listed [OF c, of "''cases''" "[[PInt 2]]"]
  note b = create_table_fail_when_listed [OF c, of "''orders''" "[[PInt 2]]"]
  from a t have 1: "fst (create_table_from_df [[PInt 2]] ''cases'' ''fail''
                           (example_adapter, stored_world)) = Inl (already_exists ''cases'')"
    and 2: "tables (snd (snd (create_table_from_df [[PInt 2]] ''cases'' ''fail''
                       (example_adapter, stored_world)))) = tables stored_world"
    by blast+
  from b o have 3: "\<forall>msg. fst (create_table_from_df [[PInt 2]] ''orders'' ''fail''
                  (example_adapter, stored_world)) \<noteq> Inl (ValueError msg)"
    by blast
  have n: "tables stored_world ''orders'' = None"
    by (simp add: stored_world_def)
  from c t 1 2 v n 3 show ?thesis by simp
qed

section \<open>The adapter as a context manager\<close>

lemma enter_connect:
  "enter s =
     (case connect s of (Inl e, s') \<Rightarrow> (Inl e, s') | (Inr h, s') \<Rightarrow> (Inr (Connection_object h), s'))"
  by (simp add: enter_def then_do_def returns_def split: prod.splits sum.splits)

lemma exit_scope_error:
  "conn a = Some h \<Longrightarrow> transaction w = None \<Longrightarrow>
   exit_scope True (a, w) =
     (Inl TransactionException, a, w\<lparr>events := events w @ [RolledBack h]\<rparr>)"
  by (simp add: exit_scope_def then_do_def rollback_def conn_rollback_def Let_def)

lemma exit_scope_error_in_transaction:
  "conn a = Some h \<Longrightarrow> transaction w = Some before \<Longrightarrow>
   exit_scope True (a, w) =
     (Inr (), a\<lparr>conn := None\<rparr>,
      w\<lparr>events := events w @ [RolledBack h, Closed h], tables := before, transaction := None,
        opened := removeAll h (opened w)\<rparr>)"
  by (simp add: exit_scope_def then_do_def rollback_def conn_rollback_def Let_def close_def
      conn_close_def)

lemma exit_scope_normal:
  "conn a = Some h \<Longrightarrow>
   exit_scope False (a, w) = (Inr (), a\<lparr>conn := None\<rparr>, conn_close h w)"
  by (simp add: exit_scope_def then_do_def returns_def close_def)

lemma connected_adapter_conn: "conn connected_adapter = Some 0"
  by (simp add: connected_adapter_def)

lemma connected_world_transaction: "transaction connected_world = None"
  by (simp add: connected_world_def empty_world_def)

lemma connected_world_events:
  "events connected_world =
     [Connected 0 [''dwh.duckdb''], Executed 0 (SetMemoryLimit (PStr ''4GB'')) [],
      Executed 0 (SetThreads (PInt 4)) []]"
  by (simp add: connected_world_def DB_PATH_def Path_def startswith_def
      DEFAULT_MEMORY_LIMIT_def DEFAULT_THREADS_def)

lemma connected_world_opened: "opened connected_world = [0]"
  by (simp add: connected_world_def)

text \<open>
  C6 fails when the scope is left after an error and no transaction is active, which is
  the case unless the body began one. The example adapter enters the scope in the empty
  world: it connects. The body raises. \<^verbatim>\<open>__exit__\<close> calls rollback, the engine raises, and
  \<^verbatim>\<open>close\<close> is not reached: the error of the rollback leaves the scope, the adapter still
  holds the connection and the connection is still open. Left without an error, the
  same scope closes the connection.
\<close>

theorem exit_after_error_skips_close:
  "enter (example_adapter, empty_world) =
     (Inr (Connection_object 0), connected_adapter, connected_world) \<and>
   fst (exit_scope True (connected_adapter, connected_world)) = Inl TransactionException \<and>
   events (snd (snd (exit_scope True (connected_adapter, connected_world)))) =
     [Connected 0 [''dwh.duckdb''], Executed 0 (SetMemoryLimit (PStr ''4GB'')) [],
      Executed 0 (SetThreads (PInt 4)) [], RolledBack 0] \<and>
   conn (fst (snd (exit_scope True (connected_adapter, connected_world)))) = Some 0 \<and>
   opened (snd (snd (exit_scope True (connected_adapter, connected_world)))) = [0] \<and>
   fst (exit_scope False (connected_adapter, connected_world)) = Inr () \<and>
   events (snd (snd (exit_scope False (connected_adapter, connected_world)))) =
     [Connected 0 [''dwh.duckdb''], Executed 0 (SetMemoryLimit (PStr ''4GB'')) [],
      Executed 0 (SetThreads (PInt 4)) [], Closed 0] \<and>
   conn (fst (snd (exit_scope False (connected_adapter, connected_world)))) = None \<and>
   opened (snd (snd (exit_scope False (connected_adapter, connected_world)))) = []"
  by (simp add: enter_connect example_connect
      exit_scope_error [OF connected_adapter_conn connected_world_transaction]
      exit_scope_normal [OF connected_adapter_conn] connected_adapter_conn
      connected_world_events connected_world_opened conn_close_def)

section \<open>One connection per adapter\<close>

lemma engine_exec_keeps:
  "opened (snd (engine_exec q ps w)) = opened w \<and> events (snd (engine_exec q ps w)) = events w"
  by (cases q)
     (simp_all add: engine_exec_def setting_result answered_def
       split: list.splits pyval.splits prod.splits)

lemma conn_execute_keeps:
  "opened (snd (conn_execute h q ps w)) = opened w \<and>
   connections_made (snd (conn_execute h q ps w)) = connections_made w"
  by (simp add: conn_execute_def engine_exec_keeps connections_made_def)

lemma steadyI:
  assumes "\<And>a w. single_connection (a, w) \<Longrightarrow> single_connection (snd (m (a, w)))"
    and "\<And>a w h. conn a = Some h \<Longrightarrow>
           conn (fst (snd (m (a, w)))) = Some h \<and>
           connections_made (snd (snd (m (a, w)))) = connections_made w"
  shows "steady m"
  using assms by (auto simp: steady_def keeps_single_connection_def never_reconnects_def)

lemma steady_returns: "steady (returns x)"
  by (simp add: steady_def keeps_single_connection_def never_reconnects_def returns_def)

lemma steady_raises: "steady (raises e)"
  by (simp add: steady_def keeps_single_connection_def never_reconnects_def raises_def)

lemma steadyD1: "steady m \<Longrightarrow> single_connection s \<Longrightarrow> single_connection (snd (m s))"
  unfolding steady_def keeps_single_connection_def by blast

lemma steadyD2:
  "steady m \<Longrightarrow> conn (fst s) \<noteq> None \<Longrightarrow>
   conn (fst (snd (m s))) = conn (fst s) \<and>
   connections_made (snd (snd (m s))) = connections_made (snd s)"
  unfolding steady_def never_reconnects_def by blast

lemma steady_then_do:
  assumes "steady m" and "\<And>x. steady (f x)"
  shows "steady (then_do m f)"
proof -
  have "single_connection (snd (then_do m f s))" if "single_connection s" for s
  proof -
    obtain r s' where ms: "m s = (r, s')"
      by (cases "m s") auto
    from steadyD1 [OF assms(1) that] ms have s': "single_connection s'"
      by simp
    show ?thesis
    proof (cases r)
      case (Inl e)
      with ms s' show ?thesis by (simp add: then_do_def)
    next
      case (Inr x)
      from steadyD1 [OF assms(2) s', of x] ms Inr show ?thesis
        by (simp add: then_do_def)
    qed
  qed
  moreover have "conn (fst (snd (then_do m f s))) = conn (fst s) \<and>
      connections_made (snd (snd (then_do m f s))) = connections_made (snd s)"
    if "conn (fst s) \<noteq> None" for s
  proof -
    obtain r s' where ms: "m s = (r, s')"
      by (cases "m s") auto
    from steadyD2 [OF assms(1) that] ms have s': "conn (fst s') = conn (fst s)"
        "connections_made (snd s') = connections_made (snd s)"
      by simp_all
    show ?thesis
    proof (cases r)
      case (Inl e)
      with ms s' show ?thesis by (simp add: then_do_def)
    next
      case (Inr x)
      from that s' have "conn (fst s') \<noteq> None" by simp
      from steadyD2 [OF assms(2) this, of x] ms Inr s' show ?thesis
        by (simp add: then_do_def)
    qed
  qed
  ultimately show ?thesis
    unfolding steady_def keeps_single_connection_def never_reconnects_def by blast
qed

lemma steady_if: "steady m \<Longrightarrow> steady n \<Longrightarrow> steady (if b then m else n)"
  by simp

lemma steady_on_world:
  assumes "\<And>w. opened (snd (f w)) = opened w \<and> connections_made (snd (f w)) = connections_made w"
  shows "steady (on_world f)"
proof (rule steadyI)
  fix a w
  assume "single_connection (a, w)"
  with assms [of w] show "single_connection (snd (on_world f (a, w)))"
    by (cases "f w") (simp add: on_world_def single_connection_def)
next
  fix a :: adapter and w :: world and h
  assume "conn a = Some h"
  with assms [of w] show "conn (fst (snd (on_world f (a, w)))) = Some h \<and>
      connections_made (snd (snd (on_world f (a, w)))) = connections_made w"
    by (cases "f w") (simp add: on_world_def)
qed

lemma steady_conn_execute: "steady (on_world (conn_execute h q ps))"
  by (rule steady_on_world) (rule conn_execute_keeps)

lemma steady_self_conn: "steady self_conn"
  by (rule steadyI) (simp_all add: self_conn_def split: option.splits)

lemma steady_connect: "steady connect"
proof (rule steadyI)
  fix a w
  assume "single_connection (a, w)"
  then show "single_connection (snd (connect (a, w)))"
    by (cases "conn a")
       (simp_all add: connect_fresh connect_connected single_connection_def split: option.splits)
next
  fix a :: adapter and w :: world and h
  assume "conn a = Some h"
  then show "conn (fst (snd (connect (a, w)))) = Some h \<and>
      connections_made (snd (snd (connect (a, w)))) = connections_made w"
    by (simp add: connect_connected)
qed

lemma steady_connect_if_none: "steady connect_if_none"
proof (rule steadyI)
  fix a w
  assume "single_connection (a, w)"
  then show "single_connection (snd (connect_if_none (a, w)))"
    by (cases "conn a")
       (simp_all add: connect_if_none_def then_do_def returns_def connect_fresh
         single_connection_def split: option.splits)
next
  fix a :: adapter and w :: world and h
  assume "conn a = Some h"
  then show "conn (fst (snd (connect_if_none (a, w)))) = Some h \<and>
      connections_made (snd (snd (connect_if_none (a, w)))) = connections_made w"
    by (simp add: connect_if_none_connected)
qed

lemma steady_execute: "steady (execute q params)"
  unfolding execute_def
  by (intro steady_then_do steady_connect_if_none steady_self_conn)
     (simp add: steady_conn_execute split: option.splits list.splits)

lemma steady_execute_each: "steady (execute_each q pss)"
  by (induction pss)
     (auto intro!: steady_then_do steady_self_conn steady_conn_execute steady_returns)

lemma steady_execute_many: "steady (execute_many q pss)"
  unfolding execute_many_def
  by (intro steady_then_do steady_connect_if_none steady_execute_each)

lemma steady_fetch_one: "steady (fetch_one q params)"
  unfolding fetch_one_def by (intro steady_then_do steady_execute steady_returns)

lemma steady_fetch_all: "steady (fetch_all q params)"
  unfolding fetch_all_def by (intro steady_then_do steady_execute steady_returns)

lemma steady_fetch_df: "steady (fetch_df q params)"
  unfolding fetch_df_def by (intro steady_then_do steady_execute steady_returns)

lemma steady_table_exists: "steady (table_exists n)"
  unfolding table_exists_def
  by (intro steady_then_do steady_fetch_one)
     (simp add: steady_returns steady_raises split: option.splits list.splits pyval.splits)

lemma steady_drop_if: 
  "steady (if b then then_do (execute q None) (\<lambda>_. returns ()) else returns ())"
  by (intro steady_if steady_then_do steady_execute steady_returns)

lemma steady_create_table_from_df: "steady (create_table_from_df df n mode)"
  unfolding create_table_from_df_def
  by (intro steady_then_do steady_connect_if_none steady_table_exists steady_if steady_raises
      steady_drop_if steady_self_conn steady_conn_execute steady_returns)

lemma steady_create_table_from_parquet_body:
  "steady (then_do (table_exists n) (\<lambda>exists.
              if exists \<and> mode = ''fail'' then raises (already_exists n)
              else
                then_do (if exists \<and> mode = ''replace''
                         then then_do (execute (DropTableIfExists n) None) (\<lambda>_. returns ())
                         else returns ()) (\<lambda>_.
                then_do (execute (if mode = ''append'' \<and> exists
                                  then InsertIntoSelectParquet n p
                                  else CreateTableAsSelectParquet n p) None) (\<lambda>_.
                then_do (fetch_one (SelectCountFrom n) None) (\<lambda>row.
                  case row of
                    None \<Rightarrow> raises TypeError
                  | Some [] \<Rightarrow> raises IndexError
                  | Some (count # _) \<Rightarrow> returns ())))))"
  by (intro steady_then_do steady_table_exists steady_if steady_raises steady_drop_if
      steady_execute steady_fetch_one)
     (simp add: steady_returns steady_raises split: option.splits list.splits)

lemma steady_create_table_from_parquet: "steady (create_table_from_parquet p n mode)"
proof -
  let ?body = "then_do (table_exists n) (\<lambda>exists.
              if exists \<and> mode = ''fail'' then raises (already_exists n)
              else
                then_do (if exists \<and> mode = ''replace''
                         then then_do (execute (DropTableIfExists n) None) (\<lambda>_. returns ())
                         else returns ()) (\<lambda>_.
                then_do (execute (if mode = ''append'' \<and> exists
                                  then InsertIntoSelectParquet n p
                                  else CreateTableAsSelectParquet n p) None) (\<lambda>_.
                then_do (fetch_one (SelectCountFrom n) None) (\<lambda>row.
                  case row of
                    None \<Rightarrow> raises TypeError
                  | Some [] \<Rightarrow> raises IndexError
                  | Some (count # _) \<Rightarrow> returns ()))))"
  have b: "steady ?body" by (rule steady_create_table_from_parquet_body)
  have r: "steady (raises (FileNotFoundError (''Parquet file not found: '' @ path_str p)) :: unit action)"
    by (rule steady_raises)
  have "create_table_from_parquet p n mode s =
          (if \<not> path_exists p (disk (snd s))
           then raises (FileNotFoundError (''Parquet file not found: '' @ path_str p)) s
           else ?body s)" for s
    by (simp add: create_table_from_parquet_def)
  with b r show ?thesis
    by (simp add: steady_def keeps_single_connection_def never_reconnects_def)
qed

lemma steady_export_to_parquet: "steady (export_to_parquet q out params)"
  unfolding export_to_parquet_def
  by (intro steady_then_do steady_execute steady_returns steady_on_world)
     (simp add: connections_made_def split: prod.splits)

lemma steady_get_table_info: "steady (get_table_info n)"
  unfolding get_table_info_def by (rule steady_fetch_df)

lemma steady_commit: "steady commit"
  by (rule steadyI)
     (simp_all add: commit_def conn_commit_def single_connection_def connections_made_def
       split: option.splits)

lemma steady_rollback: "steady rollback"
  by (rule steadyI)
     (simp_all add: rollback_def conn_rollback_def Let_def single_connection_def
       connections_made_def split: option.splits)

lemma steady_vacuum: "steady vacuum"
  unfolding vacuum_def
  by (intro steady_then_do steady_connect_if_none steady_self_conn steady_conn_execute
      steady_returns)

lemma steady_enter: "steady enter"
  unfolding enter_def by (intro steady_then_do steady_connect steady_returns)

lemma keeps_close: "keeps_single_connection close"
  by (auto simp: keeps_single_connection_def close_def conn_close_def single_connection_def
      split: option.splits)

lemma keeps_exit_scope: "keeps_single_connection (exit_scope exc)"
proof -
  have "single_connection (snd (exit_scope exc s))" if s: "single_connection s" for s
  proof -
    let ?m = "if exc then rollback else returns ()"
    have "steady ?m"
      by (simp add: steady_rollback steady_returns)
    from steadyD1 [OF this s] have m: "single_connection (snd (?m s))" .
    obtain r s' where ms: "?m s = (r, s')"
      by (cases "?m s") auto
    from m ms have s': "single_connection s'"
      by simp
    with keeps_close have "single_connection (snd (close s'))"
      unfolding keeps_single_connection_def by blast
    with s' ms show ?thesis
      by (cases r) (simp_all add: exit_scope_def then_do_def)
  qed
  then show ?thesis
    by (simp add: keeps_single_connection_def)
qed

text \<open>
  C7. An adapter holds at most one connection. \<open>connect\<close> on an adapter that holds one
  returns it and changes nothing, so nothing is opened and no setting is applied again;
  \<open>close\<close> on an adapter that holds none changes nothing. A new adapter in a world
  without open connections satisfies the invariant \<open>single_connection\<close>, and every
  method keeps it. Every method but \<open>close\<close> and the scope exit is moreover \<open>steady\<close>:
  called while a connection is held it keeps that connection and opens no other.
\<close>

theorem adapter_single_connection:
  "(conn a = Some h \<longrightarrow> connect (a, w) = (Inr h, a, w)) \<and>
   (conn a = None \<longrightarrow> close (a, w) = (Inr (), a, w)) \<and>
   (opened w = [] \<longrightarrow> single_connection (DuckDBAdapter db ml th, w)) \<and>
   steady connect \<and> keeps_single_connection close \<and>
   steady (execute q params) \<and> steady (execute_many q pss) \<and>
   steady (fetch_one q params) \<and> steady (fetch_all q params) \<and> steady (fetch_df q params) \<and>
   steady (table_exists n) \<and> steady (create_table_from_df df n mode) \<and>
   steady (create_table_from_parquet p n mode) \<and> steady (export_to_parquet q out params) \<and>
   steady (get_table_info n) \<and> steady commit \<and> steady rollback \<and> steady vacuum \<and>
   steady enter \<and> keeps_single_connection (exit_scope exc)"
proof -
  have 1: "conn a = Some h \<longrightarrow> connect (a, w) = (Inr h, a, w)"
    by (simp add: connect_connected)
  have 2: "conn a = None \<longrightarrow> close (a, w) = (Inr (), a, w)"
    by (simp add: close_def)
  have 3: "opened w = [] \<longrightarrow> single_connection (DuckDBAdapter db ml th, w)"
    by (simp add: single_connection_def DuckDBAdapter_def)
  note ops = steady_connect keeps_close steady_execute steady_execute_many steady_fetch_one
    steady_fetch_all steady_fetch_df steady_table_exists steady_create_table_from_df
    steady_create_table_from_parquet steady_export_to_parquet steady_get_table_info
    steady_commit steady_rollback steady_vacuum steady_enter keeps_exit_scope
  from 1 2 3 show ?thesis
    by (simp only: ops simp_thms)
qed

theorem adapter_single_connection_witness:
  "connect (example_adapter\<lparr>conn := Some 0\<rparr>, empty_world\<lparr>opened := [0]\<rparr>) =
     (Inr 0, example_adapter\<lparr>conn := Some 0\<rparr>, empty_world\<lparr>opened := [0]\<rparr>) \<and>
   close (example_adapter, empty_world) = (Inr (), example_adapter, empty_world) \<and>
   single_connection (example_adapter, empty_world) \<and>
   single_connection (snd (execute Checkpoint None (example_adapter, empty_world))) \<and>
   single_connection (snd (exit_scope True (snd (execute Checkpoint None (example_adapter, empty_world)))))"
proof -
  note t = adapter_single_connection
    [where a = "example_adapter\<lparr>conn := Some 0\<rparr>" and h = 0 and w = "empty_world\<lparr>opened := [0]\<rparr>"
       and q = Checkpoint and params = None and exc = True]
  note u = adapter_single_connection
    [where a = example_adapter and w = empty_world and db = DB_PATH
       and ml = DEFAULT_MEMORY_LIMIT and th = DEFAULT_THREADS]
  have c0: "conn (example_adapter\<lparr>conn := Some 0\<rparr>) = Some 0" by simp
  have c1: "conn example_adapter = None"
    by (simp add: example_adapter_def DuckDBAdapter_def)
  have o: "opened empty_world = []" by (simp add: empty_world_def)
  from t c0 have a: "connect (example_adapter\<lparr>conn := Some 0\<rparr>, empty_world\<lparr>opened := [0]\<rparr>) =
     (Inr 0, example_adapter\<lparr>conn := Some 0\<rparr>, empty_world\<lparr>opened := [0]\<rparr>)"
    by blast
  from u c1 have b: "close (example_adapter, empty_world) = (Inr (), example_adapter, empty_world)"
    by blast
  from u o have c: "single_connection (example_adapter, empty_world)"
    unfolding example_adapter_def by blast
  from t have "steady (execute Checkpoint None)" by blast
  then have d: "single_connection (snd (execute Checkpoint None (example_adapter, empty_world)))"
    using c by (rule steadyD1)
  from t have "keeps_single_connection (exit_scope True)" by blast
  with d have e: "single_connection (snd (exit_scope True (snd (execute Checkpoint None (example_adapter, empty_world)))))"
    unfolding keeps_single_connection_def by blast
  from a b c d e show ?thesis by blast
qed

section \<open>The factory\<close>

lemma lower_map: "lower s = map (\<lambda>c. hd (lower_str c)) s"
  by (induction s) (simp_all add: lower_def lower_str_def)

lemma accented_not_ascii:
  assumes "accented_capital c" and "(of_char l :: nat) < 0x80"
  shows "char_of ((of_char c :: nat) + 0x20) \<noteq> l"
proof
  assume "char_of ((of_char c :: nat) + 0x20) = l"
  then have "of_char l = ((of_char c :: nat) + 0x20) mod 256"
    by (auto simp: of_char_of)
  with assms show False
    by (simp add: accented_capital_def)
qed

lemma lower_str_ascii:
  assumes "(of_char l :: nat) < 0x80"
  shows "hd (lower_str c) = l \<longleftrightarrow> \<not> accented_capital c \<and> lower_char c = l"
  using accented_not_ascii [OF _ assms, of c] by (auto simp: lower_str_def)

lemma lower_char_d: "lower_char c = CHR ''d'' \<longleftrightarrow> c = CHR ''d'' \<or> c = CHR ''D''"
  by (auto simp: lower_char_def ascii_uppercase_def ascii_lowercase_def split: if_splits)

lemma lower_char_u: "lower_char c = CHR ''u'' \<longleftrightarrow> c = CHR ''u'' \<or> c = CHR ''U''"
  by (auto simp: lower_char_def ascii_uppercase_def ascii_lowercase_def split: if_splits)

lemma lower_char_c: "lower_char c = CHR ''c'' \<longleftrightarrow> c = CHR ''c'' \<or> c = CHR ''C''"
  by (auto simp: lower_char_def ascii_uppercase_def ascii_lowercase_def split: if_splits)

lemma lower_char_k: "lower_char c = CHR ''k'' \<longleftrightarrow> c = CHR ''k'' \<or> c = CHR ''K''"
  by (auto simp: lower_char_def ascii_uppercase_def ascii_lowercase_def split: if_splits)

lemma lower_char_b: "lower_char c = CHR ''b'' \<longleftrightarrow> c = CHR ''b'' \<or> c = CHR ''B''"
  by (auto simp: lower_char_def ascii_uppercase_def ascii_lowercase_def split: if_splits)

lemma lower_str_d: "hd (lower_str c) = CHR ''d'' \<longleftrightarrow> c = CHR ''d'' \<or> c = CHR ''D''"
  by (auto simp: lower_str_ascii lower_char_d accented_capital_def)

lemma lower_str_u: "hd (lower_str c) = CHR ''u'' \<longleftrightarrow> c = CHR ''u'' \<or> c = CHR ''U''"
  by (auto simp: lower_str_ascii lower_char_u accented_capital_def)

lemma lower_str_c: "hd (lower_str c) = CHR ''c'' \<longleftrightarrow> c = CHR ''c'' \<or> c = CHR ''C''"
  by (auto simp: lower_str_ascii lower_char_c accented_capital_def)

lemma lower_str_k: "hd (lower_str c) = CHR ''k'' \<longleftrightarrow> c = CHR ''k'' \<or> c = CHR ''K''"
  by (auto simp: lower_str_ascii lower_char_k accented_capital_def)

lemma lower_str_b: "hd (lower_str c) = CHR ''b'' \<longleftrightarrow> c = CHR ''b'' \<or> c = CHR ''B''"
  by (auto simp: lower_str_ascii lower_char_b accented_capital_def)

lemma lower_duckdb: "lower s = ''duckdb'' \<longleftrightarrow> is_duckdb_name s"
  by (auto simp: lower_map is_duckdb_name_def either_case_def list_all2_Cons2 map_eq_Cons_conv
      lower_str_d lower_str_u lower_str_c lower_str_k lower_str_b)

text \<open>
  C9. \<^verbatim>\<open>get_database(s, db_path, **kwargs)\<close> raises a value error exactly when \<open>s\<close> is
  not the name duckdb in some mix of cases. For that name it returns an adapter with
  the path made from the \<open>db_path\<close> given, the memory limit and the thread count
  taken from the keyword arguments, the defaults \<^verbatim>\<open>"4GB"\<close> and \<open>4\<close> where they are
  not given, and no connection yet.
\<close>

theorem get_database_backend:
  "((\<exists>msg. get_database s p kwargs = Inl (ValueError msg)) \<longleftrightarrow> \<not> is_duckdb_name s) \<and>
   (is_duckdb_name s \<longrightarrow>
      get_database s p kwargs =
        Inr \<lparr>db_path = Path p,
             memory_limit = (case kwargs ''memory_limit'' of None \<Rightarrow> PStr ''4GB'' | Some v \<Rightarrow> v),
             threads = (case kwargs ''threads'' of None \<Rightarrow> PInt 4 | Some v \<Rightarrow> v),
             conn = None\<rparr>)"
  by (simp add: get_database_def lower_duckdb DuckDBAdapter_def kwargs_get_def
      DEFAULT_MEMORY_LIMIT_def DEFAULT_THREADS_def)

theorem get_database_backend_witness:
  "is_duckdb_name ''DuckDB'' \<and>
   get_database ''DuckDB'' ''dwh.duckdb'' [''threads'' \<mapsto> PInt 8] =
     Inr \<lparr>db_path = [''dwh.duckdb''], memory_limit = PStr ''4GB'', threads = PInt 8,
          conn = None\<rparr>"
proof -
  have n: "is_duckdb_name ''DuckDB''"
    by (simp add: is_duckdb_name_def either_case_def)
  have p: "Path ''dwh.duckdb'' = [''dwh.duckdb'']"
    by (simp add: Path_def startswith_def)
  from get_database_backend [of "''DuckDB''" "''dwh.duckdb''" "[''threads'' \<mapsto> PInt 8]"] n p
  show ?thesis by simp
qed

section \<open>What the scope binds\<close>

lemma reader_constructed: "DuckDBReader = Inr (example_reader, example_adapter)"
  by (simp add: DuckDBReader_def get_default_database_def get_database_def lower_duckdb
      is_duckdb_name_def either_case_def example_reader_def example_adapter_def kwargs_get_def)

lemma with_db_conn_fetch_df:
  assumes "connect (a, w) = (Inr h, a', w')" and "conn a' = Some h"
  shows "with_db (\<lambda>c. call_fetch_df c q) (a, w) =
     (case transaction w' of
        None \<Rightarrow> (Inl TransactionException, a', w'\<lparr>events := events w' @ [RolledBack h]\<rparr>)
      | Some before \<Rightarrow>
          (Inl TypeError, a'\<lparr>conn := None\<rparr>,
           w'\<lparr>events := events w' @ [RolledBack h, Closed h], tables := before,
              transaction := None, opened := removeAll h (opened w')\<rparr>))"
proof (cases "transaction w'")
  case None
  with assms show ?thesis
    by (simp add: with_db_def enter_connect call_fetch_df_def on_world_def conn_fetch_df_def
        exit_scope_error)
next
  case (Some before)
  with assms show ?thesis
    by (simp add: with_db_def enter_connect call_fetch_df_def on_world_def conn_fetch_df_def
        exit_scope_error_in_transaction)
qed

lemma example_read:
  "with_db (\<lambda>c. call_fetch_df c q) (example_adapter, empty_world) =
     (Inl TransactionException, connected_adapter,
      connected_world\<lparr>events := events connected_world @ [RolledBack 0]\<rparr>)"
  by (simp add: with_db_conn_fetch_df [OF example_connect connected_adapter_conn]
      connected_world_transaction)

lemma fetch_df_events:
  assumes "connect (a, w) = (Inr h, a', w')" and "conn a' = Some h"
  shows "events (snd (snd (fetch_df q None (a, w)))) = events w' @ [Executed h q []]"
proof -
  have c: "connect_if_none (a, w) = (Inr (), a', w')"
  proof (cases "conn a")
    case None
    with assms show ?thesis
      by (simp add: connect_if_none_def then_do_def returns_def)
  next
    case (Some h')
    with assms show ?thesis
      by (simp add: connect_if_none_def returns_def connect_connected)
  qed
  obtain r w2 where e: "engine_exec q [] (w'\<lparr>events := events w' @ [Executed h q []]\<rparr>) = (r, w2)"
    by (cases "engine_exec q [] (w'\<lparr>events := events w' @ [Executed h q []]\<rparr>)") auto
  from engine_exec_keeps [of q "[]" "w'\<lparr>events := events w' @ [Executed h q []]\<rparr>"] e
  have "events w2 = events w' @ [Executed h q []]"
    by simp
  with c e assms(2) show ?thesis
    by (cases r)
       (simp_all add: fetch_df_def execute_def then_do_def self_conn_def on_world_def
         conn_execute_def returns_def)
qed

text \<open>
  C10. \<^verbatim>\<open>__enter__\<close> never returns the adapter. When \<^verbatim>\<open>connect\<close> raises, \<^verbatim>\<open>__enter__\<close> raises
  the same error; when \<^verbatim>\<open>connect\<close> returns the connection \<open>h\<close>, \<^verbatim>\<open>__enter__\<close> returns that
  connection object, which is the one the adapter holds, and leaves the state
  \<^verbatim>\<open>connect\<close> leaves. So the \<^verbatim>\<open>fetch_df(query)\<close> of the reader is the method of the
  connection, not of the adapter: the adapter's method would send the query to the
  engine, whereas with the reader's call the query never reaches the engine, the call
  raises, and the scope is left with a rollback.
\<close>

theorem scope_binds_connection:
  "fst (enter s) \<noteq> Inr Adapter_object \<and>
   (fst (connect s) = Inl e \<longrightarrow> fst (enter s) = Inl e) \<and>
   (fst (connect s) = Inr h \<longrightarrow>
      fst (enter s) = Inr (Connection_object h) \<and>
      snd (enter s) = snd (connect s) \<and>
      conn (fst (snd (enter s))) = Some h \<and>
      fst (read_all_cases self s) =
        (if transaction (snd s) = None then Inl TransactionException else Inl TypeError) \<and>
      events (snd (snd (read_all_cases self s))) =
        events (snd (snd (connect s))) @
          (if transaction (snd s) = None then [RolledBack h] else [RolledBack h, Closed h]) \<and>
      events (snd (snd (fetch_df (SelectHive (raw_path self) None) None s))) =
        events (snd (snd (connect s))) @ [Executed h (SelectHive (raw_path self) None) []])"
proof -
  obtain a w where s: "s = (a, w)"
    by (cases s) auto
  obtain r a' w' where c: "connect (a, w) = (r, a', w')"
    by (cases "connect (a, w)") auto
  have 1: "fst (enter s) \<noteq> Inr Adapter_object"
    by (cases r) (simp_all add: s c enter_connect)
  have 2: "fst (connect s) = Inl e \<longrightarrow> fst (enter s) = Inl e"
    by (cases r) (simp_all add: s c enter_connect)
  have 3: "fst (enter s) = Inr (Connection_object h) \<and>
      snd (enter s) = snd (connect s) \<and>
      conn (fst (snd (enter s))) = Some h \<and>
      fst (read_all_cases self s) =
        (if transaction (snd s) = None then Inl TransactionException else Inl TypeError) \<and>
      events (snd (snd (read_all_cases self s))) =
        events (snd (snd (connect s))) @
          (if transaction (snd s) = None then [RolledBack h] else [RolledBack h, Closed h]) \<and>
      events (snd (snd (fetch_df (SelectHive (raw_path self) None) None s))) =
        events (snd (snd (connect s))) @ [Executed h (SelectHive (raw_path self) None) []]"
    if ok: "fst (connect s) = Inr h"
  proof -
    from ok s c have r: "r = Inr h" by simp
    from connect_ok [of a w h] ok s c have h: "conn a' = Some h" and d: "same_data w w'"
      by simp_all
    from d have x: "transaction w' = transaction w"
      by (simp add: same_data_def)
    from c r have c': "connect (a, w) = (Inr h, a', w')" by simp
    show ?thesis
      by (cases "transaction w")
         (simp_all add: s c' enter_connect h read_all_cases_def
           with_db_conn_fetch_df [OF c' h] fetch_df_events [OF c' h] x)
  qed
  from 1 2 3 show ?thesis by blast
qed

theorem scope_binds_connection_witness:
  "fst (connect (example_adapter, empty_world)) = Inr 0 \<and>
   fst (enter (example_adapter, empty_world)) = Inr (Connection_object 0) \<and>
   conn (fst (snd (enter (example_adapter, empty_world)))) = Some 0 \<and>
   fst (read_all_cases example_reader (example_adapter, empty_world)) = Inl TransactionException \<and>
   events (snd (snd (read_all_cases example_reader (example_adapter, empty_world)))) =
     [Connected 0 [''dwh.duckdb''], Executed 0 (SetMemoryLimit (PStr ''4GB'')) [],
      Executed 0 (SetThreads (PInt 4)) [], RolledBack 0] \<and>
   events (snd (snd (fetch_df (SelectHive (raw_path example_reader) None) None
                       (example_adapter, empty_world)))) =
     [Connected 0 [''dwh.duckdb''], Executed 0 (SetMemoryLimit (PStr ''4GB'')) [],
      Executed 0 (SetThreads (PInt 4)) [],
      Executed 0 (SelectHive [''data'', ''raw'', ''case_history''] None) []] \<and>
   fst (connect (zero_threads_adapter, stored_world)) = Inl (EngineError ''SET threads=0'') \<and>
   fst (enter (zero_threads_adapter, stored_world)) = Inl (EngineError ''SET threads=0'')"
proof -
  have c: "fst (connect (example_adapter, empty_world)) = Inr 0"
    by (simp add: example_connect)
  have z: "fst (connect (zero_threads_adapter, stored_world)) = Inl (EngineError ''SET threads=0'')"
    by (simp add: zero_threads_connect)
  have t: "transaction (snd (example_adapter, empty_world)) = None"
    by (simp add: empty_world_def)
  have e: "events (snd (snd (connect (example_adapter, empty_world)))) =
     [Connected 0 [''dwh.duckdb''], Executed 0 (SetMemoryLimit (PStr ''4GB'')) [],
      Executed 0 (SetThreads (PInt 4)) []]"
    by (simp add: example_connect connected_world_events)
  have p: "raw_path example_reader = [''data'', ''raw'', ''case_history'']"
    by (simp add: example_reader_def RAW_DATA_PATH_def)
  note a = scope_binds_connection
    [where s = "(example_adapter, empty_world)" and h = 0 and self = example_reader]
  note b = scope_binds_connection
    [where s = "(zero_threads_adapter, stored_world)" and e = "EngineError ''SET threads=0''"]
  from a c have 1: "fst (enter (example_adapter, empty_world)) = Inr (Connection_object 0)"
    and 2: "conn (fst (snd (enter (example_adapter, empty_world)))) = Some 0"
    and 3: "fst (read_all_cases example_reader (example_adapter, empty_world)) =
        (if transaction (snd (example_adapter, empty_world)) = None
         then Inl TransactionException else Inl TypeError)"
    and 4: "events (snd (snd (read_all_cases example_reader (example_adapter, empty_world)))) =
        events (snd (snd (connect (example_adapter, empty_world)))) @
          (if transaction (snd (example_adapter, empty_world)) = None
           then [RolledBack 0] else [RolledBack 0, Closed 0])"
    and 5: "events (snd (snd (fetch_df (SelectHive (raw_path example_reader) None) None
                                (example_adapter, empty_world)))) =
        events (snd (snd (connect (example_adapter, empty_world)))) @
          [Executed 0 (SelectHive (raw_path example_reader) None) []]"
    by blast+
  from b z have 6: "fst (enter (zero_threads_adapter, stored_world)) =
      Inl (EngineError ''SET threads=0'')"
    by blast
  from c 1 2 3 4 5 6 z show ?thesis
    by (simp only: t e p if_True append.simps simp_thms)
qed

section \<open>The reader's queries\<close>

lemma with_db_conn_fetch_df_raises:
  "\<exists>e. fst (with_db (\<lambda>c. call_fetch_df c q) s) = Inl e"
proof -
  obtain a w where s: "s = (a, w)"
    by (cases s) auto
  obtain r a' w' where c: "connect (a, w) = (r, a', w')"
    by (cases "connect (a, w)") auto
  show ?thesis
  proof (cases r)
    case (Inl e)
    with c show ?thesis
      by (simp add: s with_db_def enter_connect)
  next
    case (Inr h)
    with c have c': "connect (a, w) = (Inr h, a', w')" by simp
    from connect_ok [of a w h] c' have h: "conn a' = Some h" by simp
    show ?thesis
      by (cases "transaction w'") (simp_all add: s with_db_conn_fetch_df [OF c' h])
  qed
qed

lemma read_cases_by_date_range_never_returns:
  "\<exists>e. fst (read_cases_by_date_range self start_date end_date s) = Inl e"
  unfolding read_cases_by_date_range_def by (rule with_db_conn_fetch_df_raises)

lemma read_cases_by_date_never_returns:
  "\<exists>e. fst (read_cases_by_date self y m d s) = Inl e"
  unfolding read_cases_by_date_def Let_def by (rule with_db_conn_fetch_df_raises)

lemma query_cases_never_returns:
  "\<exists>e. fst (query_cases self sql_filter s) = Inl e"
  unfolding query_cases_def Let_def by (rule with_db_conn_fetch_df_raises)

lemma range_query_text:
  "sql_text (SelectHive RAW_DATA_PATH
       (Some (Conds [Cmp Year Ge 2025, Cmp Year Le 2025, Cmp Month Ge 2, Cmp Month Le 2]))) =
     ''SELECT * FROM read_parquet('' @ [CHR 0x27] @ ''data/raw/case_history/**/*.parquet''
       @ [CHR 0x27] @ '', hive_partitioning = true)''
       @ '' WHERE year >= 2025 AND year <= 2025 AND month >= 2 AND month <= 2''"
  by (simp add: RAW_DATA_PATH_def path_str_def where_text_def cond_text_def col_name_def
      cmp_text_def str_int_def digits_of.simps digit_char_def)

lemma date_query_text:
  "sql_text (SelectHive RAW_DATA_PATH (Some (Conds [Cmp Year Eq 2025, Cmp Month Eq 2]))) =
     ''SELECT * FROM read_parquet('' @ [CHR 0x27] @ ''data/raw/case_history/**/*.parquet''
       @ [CHR 0x27] @ '', hive_partitioning = true)''
       @ '' WHERE year = 2025 AND month = 2''"
  by (simp add: RAW_DATA_PATH_def path_str_def where_text_def cond_text_def col_name_def
      cmp_text_def str_int_def digits_of.simps digit_char_def)

text \<open>
  C3 fails on every call: the reader never returns rows. The example reader, whose
  adapter is not yet connected, is asked for the range from 2025-02-11 to 2025-02-11 in
  the empty world. The scope binds the connection of the engine; its \<^verbatim>\<open>fetch_df\<close>, which
  takes no query, raises; \<^verbatim>\<open>__exit__\<close> then calls rollback outside a transaction and the
  engine raises again. The only statements that reached the engine are the two
  settings of \<^verbatim>\<open>connect\<close>: the query was never executed, and the connection stays open.
\<close>

theorem read_cases_by_date_range_raises:
  "fst (read_cases_by_date_range example_reader example_date example_date
          (example_adapter, empty_world)) = Inl TransactionException \<and>
   events (snd (snd (read_cases_by_date_range example_reader example_date example_date
                       (example_adapter, empty_world)))) =
     [Connected 0 [''dwh.duckdb''], Executed 0 (SetMemoryLimit (PStr ''4GB'')) [],
      Executed 0 (SetThreads (PInt 4)) [], RolledBack 0] \<and>
   opened (snd (snd (read_cases_by_date_range example_reader example_date example_date
                       (example_adapter, empty_world)))) = [0]"
  by (simp add: read_cases_by_date_range_def example_read connected_world_events
      connected_world_opened)

text \<open>
  C4 fails on every call, for the same reason. The example reader is asked for the
  cases of February 2025 in the empty world: the call raises, the query was never
  executed, and the connection stays open.
\<close>

theorem read_cases_by_date_raises:
  "fst (read_cases_by_date example_reader 2025 (Some 2) None
          (example_adapter, empty_world)) = Inl TransactionException \<and>
   events (snd (snd (read_cases_by_date example_reader 2025 (Some 2) None
                       (example_adapter, empty_world)))) =
     [Connected 0 [''dwh.duckdb''], Executed 0 (SetMemoryLimit (PStr ''4GB'')) [],
      Executed 0 (SetThreads (PInt 4)) [], RolledBack 0] \<and>
   opened (snd (snd (read_cases_by_date example_reader 2025 (Some 2) None
                       (example_adapter, empty_world)))) = [0]"
  by (simp add: read_cases_by_date_def Let_def example_read connected_world_events
      connected_world_opened)

section \<open>Custom queries\<close>

lemma upper_char_S: "upper_char c = CHR ''S'' \<longleftrightarrow> c = CHR ''s'' \<or> c = CHR ''S''"
  by (auto simp: upper_char_def ascii_uppercase_def ascii_lowercase_def split: if_splits)

lemma upper_char_E: "upper_char c = CHR ''E'' \<longleftrightarrow> c = CHR ''e'' \<or> c = CHR ''E''"
  by (auto simp: upper_char_def ascii_uppercase_def ascii_lowercase_def split: if_splits)

lemma upper_char_L: "upper_char c = CHR ''L'' \<longleftrightarrow> c = CHR ''l'' \<or> c = CHR ''L''"
  by (auto simp: upper_char_def ascii_uppercase_def ascii_lowercase_def split: if_splits)

lemma upper_char_C: "upper_char c = CHR ''C'' \<longleftrightarrow> c = CHR ''c'' \<or> c = CHR ''C''"
  by (auto simp: upper_char_def ascii_uppercase_def ascii_lowercase_def split: if_splits)

lemma upper_char_T: "upper_char c = CHR ''T'' \<longleftrightarrow> c = CHR ''t'' \<or> c = CHR ''T''"
  by (auto simp: upper_char_def ascii_uppercase_def ascii_lowercase_def split: if_splits)

lemma accented_small_not_ascii:
  assumes "accented_small c" and "(of_char x :: nat) < 0x80"
  shows "char_of ((of_char c :: nat) - 0x20) \<noteq> x"
proof
  assume "char_of ((of_char c :: nat) - 0x20) = x"
  then have "of_char x = ((of_char c :: nat) - 0x20) mod 256"
    by (auto simp: of_char_of)
  moreover from assms(1) have "224 \<le> (of_char c :: nat)" and "(of_char c :: nat) \<le> 254"
    by (simp_all add: accented_small_def)
  then have "(of_char c :: nat) - 0x20 < 256" and "0x80 \<le> (of_char c :: nat) - 0x20"
    by arith+
  ultimately show False
    using assms(2) by simp
qed

lemma upper_str_ascii:
  assumes "(of_char x :: nat) < 0x80"
  shows "upper_str c = [x] \<longleftrightarrow> c \<noteq> CHR 0xDF \<and> \<not> accented_small c \<and> upper_char c = x"
  using accented_small_not_ascii [OF _ assms, of c] by (auto simp: upper_str_def)

lemma upper_str_S: "upper_str c = ''S'' \<longleftrightarrow> c = CHR ''s'' \<or> c = CHR ''S''"
  by (auto simp: upper_str_ascii upper_char_S accented_small_def)

lemma upper_str_E: "upper_str c = ''E'' \<longleftrightarrow> c = CHR ''e'' \<or> c = CHR ''E''"
  by (auto simp: upper_str_ascii upper_char_E accented_small_def)

lemma upper_str_L: "upper_str c = ''L'' \<longleftrightarrow> c = CHR ''l'' \<or> c = CHR ''L''"
  by (auto simp: upper_str_ascii upper_char_L accented_small_def)

lemma upper_str_C: "upper_str c = ''C'' \<longleftrightarrow> c = CHR ''c'' \<or> c = CHR ''C''"
  by (auto simp: upper_str_ascii upper_char_C accented_small_def)

lemma upper_str_T: "upper_str c = ''T'' \<longleftrightarrow> c = CHR ''t'' \<or> c = CHR ''T''"
  by (auto simp: upper_str_ascii upper_char_T accented_small_def)

lemma upper_str_shape: "upper_str c = ''SS'' \<or> (\<exists>y. upper_str c = [y])"
  by (simp add: upper_str_def)

lemma upper_step:
  assumes "xs \<noteq> [] \<Longrightarrow> hd xs \<noteq> CHR ''S''" and "x = CHR ''S'' \<Longrightarrow> xs \<noteq> []"
    and "length xs = n"
  shows "take (Suc n) (upper_str c @ rest) = x # xs \<longleftrightarrow> upper_str c = [x] \<and> take n rest = xs"
proof -
  from upper_str_shape [of c] show ?thesis
  proof
    assume ss: "upper_str c = ''SS''"
    have "take (Suc n) (''SS'' @ rest) \<noteq> x # xs"
    proof
      assume eq: "take (Suc n) (''SS'' @ rest) = x # xs"
      then have x: "x = CHR ''S''" by simp
      with assms(2) have ne: "xs \<noteq> []" by simp
      with assms(3) obtain m where n: "n = Suc m" by (cases n) auto
      from eq n have "hd xs = CHR ''S''" by auto
      with assms(1) ne show False by simp
    qed
    with ss show ?thesis by simp
  next
    assume "\<exists>y. upper_str c = [y]"
    then obtain y where "upper_str c = [y]" by blast
    then show ?thesis by auto
  qed
qed

lemma upper_Cons: "upper (c # t) = upper_str c @ upper t"
  by (simp add: upper_def)

lemma upper_Nil: "upper [] = []"
  by (simp add: upper_def)

lemma either_case_Nil: "either_case lo up [] \<longleftrightarrow> lo = [] \<or> up = []"
  by (cases lo; cases up) (simp_all add: either_case_def)

lemma either_case_Cons:
  "either_case (l # lo) (u # up) (c # t) \<longleftrightarrow> (c = l \<or> c = u) \<and> either_case lo up t"
  by (simp add: either_case_def)

lemma either_case_empty: "either_case [] [] t \<longleftrightarrow> t = []"
  by (simp add: either_case_def)

lemma take_T: "take 1 (upper t) = ''T'' \<longleftrightarrow> either_case ''t'' ''T'' (take 1 t)"
proof (cases t)
  case Nil
  then show ?thesis by (simp add: upper_Nil either_case_Nil)
next
  case (Cons c t')
  have "take (Suc 0) (upper_str c @ upper t') = ''T'' \<longleftrightarrow>
          upper_str c = ''T'' \<and> take 0 (upper t') = []"
    by (rule upper_step) simp_all
  with Cons show ?thesis
    by (auto simp: upper_Cons upper_str_T either_case_Cons either_case_empty)
qed

lemma take_CT: "take 2 (upper t) = ''CT'' \<longleftrightarrow> either_case ''ct'' ''CT'' (take 2 t)"
proof (cases t)
  case Nil
  then show ?thesis by (simp add: upper_Nil either_case_Nil)
next
  case (Cons c t')
  have n: "2 = Suc 1" by simp
  have "take (Suc 1) (upper_str c @ upper t') = ''CT'' \<longleftrightarrow>
          upper_str c = ''C'' \<and> take 1 (upper t') = ''T''"
    by (rule upper_step) simp_all
  with Cons show ?thesis
    by (simp only: upper_Cons n take_Suc_Cons upper_str_C take_T either_case_Cons)
qed

lemma take_ECT: "take 3 (upper t) = ''ECT'' \<longleftrightarrow> either_case ''ect'' ''ECT'' (take 3 t)"
proof (cases t)
  case Nil
  then show ?thesis by (simp add: upper_Nil either_case_Nil)
next
  case (Cons c t')
  have n: "3 = Suc 2" by simp
  have "take (Suc 2) (upper_str c @ upper t') = ''ECT'' \<longleftrightarrow>
          upper_str c = ''E'' \<and> take 2 (upper t') = ''CT''"
    by (rule upper_step) simp_all
  with Cons show ?thesis
    by (simp only: upper_Cons n take_Suc_Cons upper_str_E take_CT either_case_Cons)
qed

lemma take_LECT: "take 4 (upper t) = ''LECT'' \<longleftrightarrow> either_case ''lect'' ''LECT'' (take 4 t)"
proof (cases t)
  case Nil
  then show ?thesis by (simp add: upper_Nil either_case_Nil)
next
  case (Cons c t')
  have n: "4 = Suc 3" by simp
  have "take (Suc 3) (upper_str c @ upper t') = ''LECT'' \<longleftrightarrow>
          upper_str c = ''L'' \<and> take 3 (upper t') = ''ECT''"
    by (rule upper_step) simp_all
  with Cons show ?thesis
    by (simp only: upper_Cons n take_Suc_Cons upper_str_L take_ECT either_case_Cons)
qed

lemma take_ELECT: "take 5 (upper t) = ''ELECT'' \<longleftrightarrow> either_case ''elect'' ''ELECT'' (take 5 t)"
proof (cases t)
  case Nil
  then show ?thesis by (simp add: upper_Nil either_case_Nil)
next
  case (Cons c t')
  have n: "5 = Suc 4" by simp
  have "take (Suc 4) (upper_str c @ upper t') = ''ELECT'' \<longleftrightarrow>
          upper_str c = ''E'' \<and> take 4 (upper t') = ''LECT''"
    by (rule upper_step) simp_all
  with Cons show ?thesis
    by (simp only: upper_Cons n take_Suc_Cons upper_str_E take_LECT either_case_Cons)
qed

lemma take_SELECT: "take 6 (upper t) = ''SELECT'' \<longleftrightarrow> either_case ''select'' ''SELECT'' (take 6 t)"
proof (cases t)
  case Nil
  then show ?thesis by (simp add: upper_Nil either_case_Nil)
next
  case (Cons c t')
  have n: "6 = Suc 5" by simp
  have "take (Suc 5) (upper_str c @ upper t') = ''SELECT'' \<longleftrightarrow>
          upper_str c = ''S'' \<and> take 5 (upper t') = ''ELECT''"
    by (rule upper_step) simp_all
  with Cons show ?thesis
    by (simp only: upper_Cons n take_Suc_Cons upper_str_S take_ELECT either_case_Cons)
qed

lemma rstrip_decomp:
  "\<exists>ws. t = rev (dropWhile P (rev t)) @ ws \<and> (\<forall>c \<in> set ws. P c)"
proof -
  have "rev (dropWhile P (rev t)) @ rev (takeWhile P (rev t)) =
        rev (takeWhile P (rev t) @ dropWhile P (rev t))"
    by (simp only: rev_append)
  also have "\<dots> = t"
    by (simp only: takeWhile_dropWhile_id rev_rev_ident)
  finally have "t = rev (dropWhile P (rev t)) @ rev (takeWhile P (rev t))"
    by (rule sym)
  moreover have "\<forall>c \<in> set (rev (takeWhile P (rev t))). P c"
    by (auto dest: set_takeWhileD)
  ultimately show ?thesis by blast
qed

lemma either_case_length: "either_case lo up t \<Longrightarrow> length t = min (length lo) (length up)"
  by (auto simp: either_case_def dest: list_all2_lengthD)

lemma either_case_letters:
  assumes "either_case lo up t" and "c \<in> set t"
  shows "c \<in> set lo \<union> set up"
proof -
  from assms(2) obtain i where i: "i < length t" and c: "t ! i = c"
    by (auto simp: in_set_conv_nth)
  from assms(1) have l2: "list_all2 (\<lambda>c (l, u). c = l \<or> c = u) t (zip lo up)"
    by (simp add: either_case_def)
  from list_all2_lengthD [OF l2] have len: "length t = length (zip lo up)" .
  from i len have lo: "i < length lo" and up: "i < length up"
    by simp_all
  from list_all2_nthD [OF l2 i] lo up have "t ! i = lo ! i \<or> t ! i = up ! i"
    by simp
  with c lo up show ?thesis
    by (auto dest: nth_mem)
qed

lemma select_letters_not_space: "c \<in> set ''select'' \<union> set ''SELECT'' \<Longrightarrow> \<not> is_space c"
  by (auto simp: is_space_def)

lemma either_case_ignores_tail:
  assumes "\<forall>c \<in> set ws. is_space c"
  shows "either_case ''select'' ''SELECT'' (take 6 (r @ ws)) \<longleftrightarrow>
         either_case ''select'' ''SELECT'' (take 6 r)"
proof (cases "6 \<le> length r")
  case True
  then show ?thesis by simp
next
  case False
  then have short: "length r < 6" by simp
  have "\<not> either_case ''select'' ''SELECT'' (take 6 r)"
  proof
    assume "either_case ''select'' ''SELECT'' (take 6 r)"
    from either_case_length [OF this] short show False by simp
  qed
  moreover have "\<not> either_case ''select'' ''SELECT'' (take 6 (r @ ws))"
  proof
    assume e: "either_case ''select'' ''SELECT'' (take 6 (r @ ws))"
    from either_case_length [OF e] have len: "length (take 6 (r @ ws)) = 6" by simp
    with short have ws: "ws \<noteq> []" by auto
    then have "hd ws \<in> set ws" by simp
    with assms have sp: "is_space (hd ws)" by blast
    from ws short have "take 6 (r @ ws) = r @ hd ws # take (5 - length r) (tl ws)"
      by (cases ws) (simp_all add: take_Cons')
    then have "hd ws \<in> set (take 6 (r @ ws))" by simp
    from either_case_letters [OF e this]
    have "\<not> is_space (hd ws)" by (rule select_letters_not_space)
    with sp show False by simp
  qed
  ultimately show ?thesis by simp
qed

lemma startswith_select: "startswith (upper (strip s)) ''SELECT'' \<longleftrightarrow> begins_with_select s"
proof -
  let ?t = "dropWhile is_space s"
  obtain ws where t: "?t = strip s @ ws" and ws: "\<forall>c \<in> set ws. is_space c"
    using rstrip_decomp [of ?t is_space] by (auto simp: strip_def)
  have six: "length ''SELECT'' = 6"
    by simp
  have "startswith (upper (strip s)) ''SELECT'' \<longleftrightarrow> take 6 (upper (strip s)) = ''SELECT''"
    by (simp only: startswith_def six)
  also have "\<dots> \<longleftrightarrow> either_case ''select'' ''SELECT'' (take 6 (strip s))"
    by (rule take_SELECT)
  also have "\<dots> \<longleftrightarrow> either_case ''select'' ''SELECT'' (take 6 (strip s @ ws))"
    using either_case_ignores_tail [OF ws, of "strip s"] by (rule sym)
  also have "\<dots> \<longleftrightarrow> begins_with_select s"
    by (simp only: begins_with_select_def t [symmetric])
  finally show ?thesis .
qed

lemma query_cases_selects:
  "query_cases self s =
     with_db (\<lambda>c. call_fetch_df c
                     (if begins_with_select s then RawSql s
                      else SelectHive (raw_path self) (Some (RawWhere s))))"
  by (simp add: query_cases_def startswith_select)

text \<open>
  C8 fails on every call, for the same reason as C3 and C4. The query is chosen as
  described: the text itself when, after its leading white space, it begins with the
  letters of SELECT in either case, the read of the partitioned tree with the text as
  its filter otherwise (\<open>query_cases_selects\<close>). But given a full query or given a
  filter, \<^verbatim>\<open>query_cases\<close> raises in the empty world; neither the text it was given nor
  the read of the partitioned tree was executed.
\<close>

theorem query_cases_raises:
  "fst (query_cases example_reader ''  select 1'' (example_adapter, empty_world)) =
     Inl TransactionException \<and>
   events (snd (snd (query_cases example_reader ''  select 1'' (example_adapter, empty_world)))) =
     [Connected 0 [''dwh.duckdb''], Executed 0 (SetMemoryLimit (PStr ''4GB'')) [],
      Executed 0 (SetThreads (PInt 4)) [], RolledBack 0] \<and>
   fst (query_cases example_reader ''year = 2025'' (example_adapter, empty_world)) =
     Inl TransactionException \<and>
   events (snd (snd (query_cases example_reader ''year = 2025'' (example_adapter, empty_world)))) =
     [Connected 0 [''dwh.duckdb''], Executed 0 (SetMemoryLimit (PStr ''4GB'')) [],
      Executed 0 (SetThreads (PInt 4)) [], RolledBack 0]"
  by (simp add: query_cases_def Let_def example_read connected_world_events)

end
